theory Spec2Isabelle
  imports Main
begin

section \<open>The command layer of newt: build, clean and test\<close>

text \<open>
  The theory embeds \<^verbatim>\<open>newt/cli/build_cmds.go\<close>: \<^verbatim>\<open>buildRunCmd\<close>, \<^verbatim>\<open>cleanRunCmd\<close> and
  \<^verbatim>\<open>testRunCmd\<close>, with \<^verbatim>\<open>pkgIsTestable\<close>. The three commands only sequence calls into
  other packages (project, builder, util, the resolvers of package cli). Those callees
  are not part of the file, so they are parameters of the model: a record of
  functions over an abstract world \<open>'w\<close> (the process-wide project state and the file
  system), an abstract target type \<open>'t\<close> and an abstract builder type \<open>'b\<close>.
  Every call a command makes is appended to a trace, so that the order and the number
  of the calls can be stated.
\<close>

subsection \<open>Errors and process termination\<close>

text \<open>
  A non-nil value of Go's \<^verbatim>\<open>error\<close> interface. Its dynamic type is either
  \<^verbatim>\<open>*util.NewtError\<close> or any other type, of which only the message is kept. A value of
  dynamic type \<^verbatim>\<open>*util.NewtError\<close> holds a pointer: \<open>NewtError\<close> is a pointer to a
  structure, whose field \<^verbatim>\<open>Text\<close> is kept, and \<open>NilNewtError\<close> is the nil pointer of
  that type, which makes an interface value that is not \<^verbatim>\<open>nil\<close> all the same.
\<close>

datatype go_error = NewtError string | NilNewtError | ForeignError string

text \<open>
  Modelled from the spec: \<^verbatim>\<open>util.NewNewtError\<close> and \<^verbatim>\<open>util.FmtNewtError\<close> are not in the
  file. They build the structured error whose diagnostic text is the given message
  (for \<^verbatim>\<open>FmtNewtError\<close>: the formatted message, which the callers below assemble).
\<close>

definition NewNewtError :: "string \<Rightarrow> go_error" where
  "NewNewtError msg = NewtError msg"

text \<open>
  Modelled from the spec: \<^verbatim>\<open>NewtUsage(cmd, err)\<close> (package cli) is not in the file; the
  spec has it report the error and the usage text and terminate the process with a
  non-zero status. So a call is one of the ways a command stops before its last
  statement: a terminal value that records whether a command was passed (\<open>True\<close>) or
  \<^verbatim>\<open>nil\<close> (\<open>False\<close>), and the error passed. The other ways are the two panics of the Go
  runtime that the commands can meet: \<open>Panic\<close> is a failed single-value type
  assertion, \<open>NilPanic\<close> is the read of a field through a nil pointer. Both end the
  process with a non-zero status.
\<close>

datatype abort = NewtUsage bool "go_error option" | Panic | NilPanic

fun exits_nonzero :: "abort option \<Rightarrow> bool" where
  "exits_nonzero None = False"
| "exits_nonzero (Some (NewtUsage cmd err)) = True"
| "exits_nonzero (Some Panic) = True"
| "exits_nonzero (Some NilPanic) = True"

subsection \<open>Packages, events and the state\<close>

text \<open>
  A \<^verbatim>\<open>*pkg.LocalPackage\<close>, by what its three getters used here return. The package
  list of the project holds values of an interface type, which the test command
  narrows to \<^verbatim>\<open>*pkg.LocalPackage\<close> by a type assertion.
\<close>

record local_package =
  BasePath :: string
  FullName :: string
  Name :: string

datatype package_interface = LocalPackage local_package | ForeignPackage

datatype verbosity = VERBOSITY_QUIET | VERBOSITY_DEFAULT | VERBOSITY_VERBOSE

text \<open>
  One entry of the trace for each call into a collaborator. A status message is
  recorded as the call is written: the level, the format string and the arguments.
  A test action is recorded with the error it returned.
\<close>

datatype ('t, 'b) event =
    Ev_Initialize
  | Ev_ResetProject
  | Ev_PackageList
  | Ev_ResolveTarget string
  | Ev_ResolvePackage string
  | Ev_NewBuilder 't
  | Ev_Build 'b
  | Ev_Clean 'b
  | Ev_Test 'b local_package "go_error option"
  | Ev_RemoveAll string
  | Ev_StatusMessage verbosity string "string list"

record ('w, 't, 'b) state =
  world :: 'w
  events :: "('t, 'b) event list"

text \<open>
  Modelled from the spec: the collaborators, none of which is in the file, by the
  shapes section 6 of the spec gives them. \<open>Initialize\<close>, \<open>ResetProject\<close>, \<open>NewBuilder\<close>,
  the builder's actions and \<open>RemoveAll\<close> (\<^verbatim>\<open>os.RemoveAll\<close>) may change the world. The two
  resolvers are pure lookups against the current project state (section 4.1 of the
  spec), and \<open>PackageList\<close>, \<open>NodeExist\<close>, \<open>AppElfPath\<close> and \<open>BinRoot\<close> only read.
  \<open>PackageList\<close> is a Go map of maps, whose iteration order the language leaves open:
  it is given as lists in the order in which the runtime iterates them.
  \<open>PackageNameList\<close> (package cli) formats the names of a list of packages.
\<close>

record ('w, 't, 'b) env =
  Initialize :: "'w \<Rightarrow> go_error option \<times> 'w"
  ResetProject :: "'w \<Rightarrow> 'w"
  PackageList :: "'w \<Rightarrow> (string \<times> (string \<times> package_interface) list) list"
  NodeExist :: "'w \<Rightarrow> string \<Rightarrow> bool"
  ResolveTarget :: "'w \<Rightarrow> string \<Rightarrow> 't option"
  ResolvePackage :: "'w \<Rightarrow> string \<Rightarrow> go_error + local_package"
  NewBuilder :: "'w \<Rightarrow> 't \<Rightarrow> (go_error + 'b) \<times> 'w"
  Build :: "'w \<Rightarrow> 'b \<Rightarrow> go_error option \<times> 'w"
  Clean :: "'w \<Rightarrow> 'b \<Rightarrow> go_error option \<times> 'w"
  Test :: "'w \<Rightarrow> 'b \<Rightarrow> local_package \<Rightarrow> go_error option \<times> 'w"
  AppElfPath :: "'w \<Rightarrow> 'b \<Rightarrow> string"
  BinRoot :: "'w \<Rightarrow> string"
  RemoveAll :: "'w \<Rightarrow> string \<Rightarrow> go_error option \<times> 'w"
  PackageNameList :: "local_package list \<Rightarrow> string"

definition emit :: "('t, 'b) event \<Rightarrow> ('w, 't, 'b) state \<Rightarrow> ('w, 't, 'b) state" where
  "emit e s = s\<lparr>events := events s @ [e]\<rparr>"

text \<open>Each call: the collaborator's answer in the current world, and the trace entry.\<close>

definition do_Initialize ::
  "('w, 't, 'b) env \<Rightarrow> ('w, 't, 'b) state \<Rightarrow> go_error option \<times> ('w, 't, 'b) state" where
  "do_Initialize env s =
     (case Initialize env (world s) of
        (err, w) \<Rightarrow> (err, emit Ev_Initialize (s\<lparr>world := w\<rparr>)))"

definition do_ResetProject :: "('w, 't, 'b) env \<Rightarrow> ('w, 't, 'b) state \<Rightarrow> ('w, 't, 'b) state" where
  "do_ResetProject env s = emit Ev_ResetProject (s\<lparr>world := ResetProject env (world s)\<rparr>)"

definition do_ResolveTarget ::
  "('w, 't, 'b) env \<Rightarrow> string \<Rightarrow> ('w, 't, 'b) state \<Rightarrow> 't option \<times> ('w, 't, 'b) state" where
  "do_ResolveTarget env name s =
     (ResolveTarget env (world s) name, emit (Ev_ResolveTarget name) s)"

definition do_ResolvePackage ::
  "('w, 't, 'b) env \<Rightarrow> string \<Rightarrow> ('w, 't, 'b) state
     \<Rightarrow> (go_error + local_package) \<times> ('w, 't, 'b) state" where
  "do_ResolvePackage env name s =
     (ResolvePackage env (world s) name, emit (Ev_ResolvePackage name) s)"

definition do_NewBuilder ::
  "('w, 't, 'b) env \<Rightarrow> 't \<Rightarrow> ('w, 't, 'b) state \<Rightarrow> (go_error + 'b) \<times> ('w, 't, 'b) state" where
  "do_NewBuilder env t s =
     (case NewBuilder env (world s) t of
        (r, w) \<Rightarrow> (r, emit (Ev_NewBuilder t) (s\<lparr>world := w\<rparr>)))"

definition do_Build ::
  "('w, 't, 'b) env \<Rightarrow> 'b \<Rightarrow> ('w, 't, 'b) state \<Rightarrow> go_error option \<times> ('w, 't, 'b) state" where
  "do_Build env b s =
     (case Build env (world s) b of
        (err, w) \<Rightarrow> (err, emit (Ev_Build b) (s\<lparr>world := w\<rparr>)))"

definition do_Clean ::
  "('w, 't, 'b) env \<Rightarrow> 'b \<Rightarrow> ('w, 't, 'b) state \<Rightarrow> go_error option \<times> ('w, 't, 'b) state" where
  "do_Clean env b s =
     (case Clean env (world s) b of
        (err, w) \<Rightarrow> (err, emit (Ev_Clean b) (s\<lparr>world := w\<rparr>)))"

definition do_Test ::
  "('w, 't, 'b) env \<Rightarrow> 'b \<Rightarrow> local_package \<Rightarrow> ('w, 't, 'b) state
     \<Rightarrow> go_error option \<times> ('w, 't, 'b) state" where
  "do_Test env b pack s =
     (case Test env (world s) b pack of
        (err, w) \<Rightarrow> (err, emit (Ev_Test b pack err) (s\<lparr>world := w\<rparr>)))"

definition do_RemoveAll ::
  "('w, 't, 'b) env \<Rightarrow> string \<Rightarrow> ('w, 't, 'b) state \<Rightarrow> go_error option \<times> ('w, 't, 'b) state" where
  "do_RemoveAll env path s =
     (case RemoveAll env (world s) path of
        (err, w) \<Rightarrow> (err, emit (Ev_RemoveAll path) (s\<lparr>world := w\<rparr>)))"

definition StatusMessage ::
  "verbosity \<Rightarrow> string \<Rightarrow> string list \<Rightarrow> ('w, 't, 'b) state \<Rightarrow> ('w, 't, 'b) state" where
  "StatusMessage level message args s = emit (Ev_StatusMessage level message args) s"

subsection \<open>Constants\<close>

definition TARGET_TEST_NAME :: string where
  "TARGET_TEST_NAME = ''unittest''"

text \<open>
  Modelled from the spec: \<^verbatim>\<open>TARGET_KEYWORD_ALL\<close> is declared elsewhere in package cli;
  the spec gives the reserved wildcard name as "all".
\<close>

definition TARGET_KEYWORD_ALL :: string where
  "TARGET_KEYWORD_ALL = ''all''"

subsection \<open>pkgIsTestable\<close>

definition pkgIsTestable :: "('w, 't, 'b) env \<Rightarrow> 'w \<Rightarrow> local_package \<Rightarrow> bool" where
  "pkgIsTestable env w pack = NodeExist env w (BasePath pack @ ''/src/test'')"

subsection \<open>buildRunCmd\<close>

definition buildRunCmd ::
  "('w, 't, 'b) env \<Rightarrow> string list \<Rightarrow> ('w, 't, 'b) state \<Rightarrow> abort option \<times> ('w, 't, 'b) state" where
  "buildRunCmd env args s0 =
     (case do_Initialize env s0 of
        (Some err, s1) \<Rightarrow> (Some (NewtUsage True (Some err)), s1)
      | (None, s1) \<Rightarrow>
          if length args < 1 then (Some (NewtUsage True None), s1)
          else
            (case do_ResolveTarget env (args ! 0) s1 of
               (None, s2) \<Rightarrow>
                 (Some (NewtUsage True
                    (Some (NewNewtError (''invalid target name: '' @ args ! 0)))), s2)
             | (Some t, s2) \<Rightarrow>
                 (case do_NewBuilder env t s2 of
                    (Inl err, s3) \<Rightarrow> (Some (NewtUsage False (Some err)), s3)
                  | (Inr b, s3) \<Rightarrow>
                      (case do_Build env b s3 of
                         (Some err, s4) \<Rightarrow> (Some (NewtUsage False (Some err)), s4)
                       | (None, s4) \<Rightarrow>
                           (None,
                            StatusMessage VERBOSITY_DEFAULT
                              ''App successfully built: %s\<newline>''
                              [AppElfPath env (world s4) b] s4)))))"

subsection \<open>cleanRunCmd\<close>

text \<open>The first loop of \<^verbatim>\<open>cleanRunCmd\<close>: each argument is the wildcard or is resolved.\<close>

fun cleanRunCmd_classify ::
  "('w, 't, 'b) env \<Rightarrow> string list \<Rightarrow> bool \<Rightarrow> 't list \<Rightarrow> ('w, 't, 'b) state
     \<Rightarrow> (abort + bool \<times> 't list) \<times> ('w, 't, 'b) state" where
  "cleanRunCmd_classify env [] cleanAll targets s = (Inr (cleanAll, targets), s)"
| "cleanRunCmd_classify env (arg # args) cleanAll targets s =
     (if arg = TARGET_KEYWORD_ALL then cleanRunCmd_classify env args True targets s
      else
        (case do_ResolveTarget env arg s of
           (None, s1) \<Rightarrow>
             (Inl (NewtUsage True (Some (NewNewtError (''invalid target name: '' @ arg)))), s1)
         | (Some t, s1) \<Rightarrow> cleanRunCmd_classify env args cleanAll (targets @ [t]) s1))"

text \<open>The second loop: a builder and a Clean action for each resolved target.\<close>

fun cleanRunCmd_targets ::
  "('w, 't, 'b) env \<Rightarrow> 't list \<Rightarrow> ('w, 't, 'b) state \<Rightarrow> abort option \<times> ('w, 't, 'b) state" where
  "cleanRunCmd_targets env [] s = (None, s)"
| "cleanRunCmd_targets env (t # ts) s =
     (case do_NewBuilder env t s of
        (Inl err, s1) \<Rightarrow> (Some (NewtUsage True (Some err)), s1)
      | (Inr b, s1) \<Rightarrow>
          (case do_Clean env b s1 of
             (Some err, s2) \<Rightarrow> (Some (NewtUsage True (Some err)), s2)
           | (None, s2) \<Rightarrow> cleanRunCmd_targets env ts s2))"

definition cleanRunCmd ::
  "('w, 't, 'b) env \<Rightarrow> string list \<Rightarrow> ('w, 't, 'b) state \<Rightarrow> abort option \<times> ('w, 't, 'b) state" where
  "cleanRunCmd env args s0 =
     (case do_Initialize env s0 of
        (Some err, s1) \<Rightarrow> (Some (NewtUsage True (Some err)), s1)
      | (None, s1) \<Rightarrow>
          if length args < 1
          then (Some (NewtUsage True (Some (NewNewtError ''Must specify target''))), s1)
          else
            (case cleanRunCmd_classify env args False [] s1 of
               (Inl a, s2) \<Rightarrow> (Some a, s2)
             | (Inr (cleanAll, targets), s2) \<Rightarrow>
                 if cleanAll then
                   (let path = BinRoot env (world s2);
                        s3 = StatusMessage VERBOSITY_VERBOSE
                               ''Cleaning directory %s\<newline>'' [path] s2
                    in case do_RemoveAll env path s3 of
                         (Some err, s4) \<Rightarrow> (Some (NewtUsage True (Some err)), s4)
                       | (None, s4) \<Rightarrow> (None, s4))
                 else cleanRunCmd_targets env targets s2))"

subsection \<open>testRunCmd\<close>

text \<open>
  The first loop of \<^verbatim>\<open>testRunCmd\<close> ("Verify and resolve each specified package"):
  the literal "all" sets the flag, every other argument is resolved, and a resolver
  error leaves through \<^verbatim>\<open>NewtUsage(cmd, err)\<close>.
\<close>

fun testRunCmd_resolve ::
  "('w, 't, 'b) env \<Rightarrow> string list \<Rightarrow> bool \<Rightarrow> local_package list \<Rightarrow> ('w, 't, 'b) state
     \<Rightarrow> (abort + bool \<times> local_package list) \<times> ('w, 't, 'b) state" where
  "testRunCmd_resolve env [] testAll packs s = (Inr (testAll, packs), s)"
| "testRunCmd_resolve env (pkgName # args) testAll packs s =
     (if pkgName = ''all'' then testRunCmd_resolve env args True packs s
      else
        (case do_ResolvePackage env pkgName s of
           (Inl err, s1) \<Rightarrow> (Inl (NewtUsage True (Some err)), s1)
         | (Inr pack, s1) \<Rightarrow> testRunCmd_resolve env args testAll (packs @ [pack]) s1))"

text \<open>
  The loops under \<^verbatim>\<open>if testAll\<close>: the inner one over the packages of one repository,
  with the type assertion \<^verbatim>\<open>pack.(*pkg.LocalPackage)\<close>, the outer one over the repositories.
\<close>

fun testRunCmd_repo ::
  "('w, 't, 'b) env \<Rightarrow> 'w \<Rightarrow> (string \<times> package_interface) list \<Rightarrow> local_package list
     \<Rightarrow> abort + local_package list" where
  "testRunCmd_repo env w [] packs = Inr packs"
| "testRunCmd_repo env w ((n, pack) # repoHash) packs =
     (case pack of
        ForeignPackage \<Rightarrow> Inl Panic
      | LocalPackage lclPack \<Rightarrow>
          if pkgIsTestable env w lclPack
          then testRunCmd_repo env w repoHash (packs @ [lclPack])
          else testRunCmd_repo env w repoHash packs)"

fun testRunCmd_all ::
  "('w, 't, 'b) env \<Rightarrow> 'w \<Rightarrow> (string \<times> (string \<times> package_interface) list) list
     \<Rightarrow> local_package list \<Rightarrow> abort + local_package list" where
  "testRunCmd_all env w [] packs = Inr packs"
| "testRunCmd_all env w ((r, repoHash) # repos) packs =
     (case testRunCmd_repo env w repoHash packs of
        Inl a \<Rightarrow> Inl a
      | Inr packs' \<Rightarrow> testRunCmd_all env w repos packs')"

text \<open>
  Selection, the command up to the emptiness check: initialisation, the arity check,
  the first loop, and the replacement of the resolved packages when "all" was seen.
\<close>

definition testRunCmd_select ::
  "('w, 't, 'b) env \<Rightarrow> string list \<Rightarrow> ('w, 't, 'b) state
     \<Rightarrow> (abort + local_package list) \<times> ('w, 't, 'b) state" where
  "testRunCmd_select env args s0 =
     (case do_Initialize env s0 of
        (Some err, s1) \<Rightarrow> (Inl (NewtUsage True (Some err)), s1)
      | (None, s1) \<Rightarrow>
          if length args < 1 then (Inl (NewtUsage True None), s1)
          else
            (case testRunCmd_resolve env args False [] s1 of
               (Inl a, s2) \<Rightarrow> (Inl a, s2)
             | (Inr (testAll, packs), s2) \<Rightarrow>
                 if testAll then
                   (let s3 = emit Ev_PackageList s2
                    in (testRunCmd_all env (world s3) (PackageList env (world s3)) [], s3))
                 else (Inr packs, s2)))"

text \<open>
  The body of the main loop up to the test action: one cycle for one selected package.
  It returns the package as resolved again, and what the test action returned.
\<close>

definition testRunCmd_cycle ::
  "('w, 't, 'b) env \<Rightarrow> local_package \<Rightarrow> ('w, 't, 'b) state
     \<Rightarrow> (abort + local_package \<times> go_error option) \<times> ('w, 't, 'b) state" where
  "testRunCmd_cycle env pack s0 =
     (let s1 = do_ResetProject env s0
      in case do_ResolveTarget env TARGET_TEST_NAME s1 of
           (None, s2) \<Rightarrow>
             (Inl (NewtUsage False
                (Some (NewNewtError (''Can't find unit test target: '' @ TARGET_TEST_NAME)))),
              s2)
         | (Some t, s2) \<Rightarrow>
             (case do_NewBuilder env t s2 of
                (Inl err, s3) \<Rightarrow> (Inl (NewtUsage False (Some err)), s3)
              | (Inr b, s3) \<Rightarrow>
                  (let s4 = StatusMessage VERBOSITY_DEFAULT ''Testing package %s\<newline>''
                              [FullName pack] s3
                   in case do_ResolvePackage env (FullName pack) s4 of
                        (Inl err, s5) \<Rightarrow>
                          (Inl (NewtUsage False
                             (Some (NewNewtError
                                (''Failed to resolve package: '' @ Name pack)))), s5)
                      | (Inr newPack, s5) \<Rightarrow>
                          (case do_Test env b newPack s5 of
                             (err, s6) \<Rightarrow> (Inr (newPack, err), s6)))))"

text \<open>
  The main loop with its two accumulators. The error branch asserts the dynamic type
  \<^verbatim>\<open>*util.NewtError\<close>, which panics for any other type, and then reads the field
  \<^verbatim>\<open>Text\<close> as the argument of the status message, which panics for the nil pointer
  before anything is printed or recorded.
\<close>

fun testRunCmd_cycles ::
  "('w, 't, 'b) env \<Rightarrow> local_package list \<Rightarrow> local_package list \<Rightarrow> local_package list
     \<Rightarrow> ('w, 't, 'b) state
     \<Rightarrow> (abort + local_package list \<times> local_package list) \<times> ('w, 't, 'b) state" where
  "testRunCmd_cycles env [] passedPkgs failedPkgs s = (Inr (passedPkgs, failedPkgs), s)"
| "testRunCmd_cycles env (pack # packs) passedPkgs failedPkgs s =
     (case testRunCmd_cycle env pack s of
        (Inl a, s1) \<Rightarrow> (Inl a, s1)
      | (Inr (newPack, None), s1) \<Rightarrow>
          testRunCmd_cycles env packs (passedPkgs @ [newPack]) failedPkgs s1
      | (Inr (newPack, Some (ForeignError m)), s1) \<Rightarrow> (Inl Panic, s1)
      | (Inr (newPack, Some NilNewtError), s1) \<Rightarrow> (Inl NilPanic, s1)
      | (Inr (newPack, Some (NewtError text)), s1) \<Rightarrow>
          testRunCmd_cycles env packs passedPkgs (failedPkgs @ [newPack])
            (StatusMessage VERBOSITY_QUIET text [] s1))"

text \<open>The aggregation after the loop.\<close>

definition testRunCmd_report ::
  "('w, 't, 'b) env \<Rightarrow> local_package list \<Rightarrow> local_package list \<Rightarrow> ('w, 't, 'b) state
     \<Rightarrow> abort option \<times> ('w, 't, 'b) state" where
  "testRunCmd_report env passedPkgs failedPkgs s =
     (let passStr = ''Passed tests: ['' @ PackageNameList env passedPkgs @ '']'';
          failStr = ''Failed tests: ['' @ PackageNameList env failedPkgs @ '']''
      in if length failedPkgs > 0
         then (Some (NewtUsage False
                 (Some (NewtError
                    (''Test failure(s):\<newline>'' @ passStr @ ''\<newline>'' @ failStr)))), s)
         else (None,
               StatusMessage VERBOSITY_DEFAULT ''All tests passed\<newline>'' []
                 (StatusMessage VERBOSITY_DEFAULT ''%s\<newline>'' [passStr] s)))"

definition testRunCmd ::
  "('w, 't, 'b) env \<Rightarrow> string list \<Rightarrow> ('w, 't, 'b) state \<Rightarrow> abort option \<times> ('w, 't, 'b) state" where
  "testRunCmd env args s0 =
     (case testRunCmd_select env args s0 of
        (Inl a, s1) \<Rightarrow> (Some a, s1)
      | (Inr packs, s1) \<Rightarrow>
          if length packs = 0
          then (Some (NewtUsage False (Some (NewNewtError ''No testable packages found''))), s1)
          else
            (case testRunCmd_cycles env packs [] [] s1 of
               (Inl a, s2) \<Rightarrow> (Some a, s2)
             | (Inr (passedPkgs, failedPkgs), s2) \<Rightarrow>
                 testRunCmd_report env passedPkgs failedPkgs s2))"

section \<open>Observations of a trace\<close>

text \<open>The test actions of a trace, in order: the package tested and the error returned.\<close>

fun test_calls :: "('t, 'b) event list \<Rightarrow> (local_package \<times> go_error option) list" where
  "test_calls [] = []"
| "test_calls (Ev_Test b pack err # es) = (pack, err) # test_calls es"
| "test_calls (e # es) = test_calls es"

text \<open>The names passed to the package resolver, in order.\<close>

fun resolve_calls :: "('t, 'b) event list \<Rightarrow> string list" where
  "resolve_calls [] = []"
| "resolve_calls (Ev_ResolvePackage n # es) = n # resolve_calls es"
| "resolve_calls (e # es) = resolve_calls es"

text \<open>The arguments of a command that are not the wildcard.\<close>

definition explicit_names :: "string list \<Rightarrow> string list" where
  "explicit_names args = filter (\<lambda>a. a \<noteq> ''all'') args"

section \<open>A small project to run the commands on\<close>

text \<open>
  Two repositories: core with the packages alpha and beta, extra with gamma; alpha and
  gamma have a test directory. The targets are unittest and blinky. The world is the
  number of resets so far, a builder is its target with the generation it was made in.
  The package resolver and the outcome of a test action are left open.
\<close>

definition demo_pkg :: "string \<Rightarrow> string \<Rightarrow> local_package" where
  "demo_pkg repo n = \<lparr>BasePath = repo @ ''/'' @ n, FullName = repo @ ''/'' @ n, Name = n\<rparr>"

fun demo_names :: "local_package list \<Rightarrow> string" where
  "demo_names [] = []"
| "demo_names [p] = Name p"
| "demo_names (p # ps) = Name p @ '' '' @ demo_names ps"

definition demo_resolve :: "nat \<Rightarrow> string \<Rightarrow> go_error + local_package" where
  "demo_resolve w n =
     (if n = ''alpha'' \<or> n = ''core/alpha'' then Inr (demo_pkg ''core'' ''alpha'')
      else if n = ''beta'' \<or> n = ''core/beta'' then Inr (demo_pkg ''core'' ''beta'')
      else if n = ''gamma'' \<or> n = ''extra/gamma'' then Inr (demo_pkg ''extra'' ''gamma'')
      else Inl (NewtError (''no such package: '' @ n)))"

definition demo_env ::
  "(nat \<Rightarrow> string \<Rightarrow> go_error + local_package) \<Rightarrow> (nat \<Rightarrow> local_package \<Rightarrow> go_error option)
     \<Rightarrow> (nat, string, string \<times> nat) env" where
  "demo_env rp tst =
     \<lparr>Initialize = (\<lambda>w. (None, w)),
      ResetProject = Suc,
      PackageList = (\<lambda>w.
        [(''core'', [(''alpha'', LocalPackage (demo_pkg ''core'' ''alpha'')),
                    (''beta'', LocalPackage (demo_pkg ''core'' ''beta''))]),
         (''extra'', [(''gamma'', LocalPackage (demo_pkg ''extra'' ''gamma''))])]),
      NodeExist = (\<lambda>w p. p = ''core/alpha/src/test'' \<or> p = ''extra/gamma/src/test''),
      ResolveTarget = (\<lambda>w n. if n = ''unittest'' \<or> n = ''blinky'' then Some n else None),
      ResolvePackage = rp,
      NewBuilder = (\<lambda>w t. (Inr (t, w), w)),
      Build = (\<lambda>w b. (None, w)),
      Clean = (\<lambda>w b. (None, w)),
      Test = (\<lambda>w b p. (tst w p, w)),
      AppElfPath = (\<lambda>w b. ''bin/'' @ fst b @ ''/app.elf''),
      BinRoot = (\<lambda>w. ''bin''),
      RemoveAll = (\<lambda>w p. (None, w)),
      PackageNameList = demo_names\<rparr>"

text \<open>The test action of alpha fails with a structured error, every other one passes.\<close>

definition demo_test :: "nat \<Rightarrow> local_package \<Rightarrow> go_error option" where
  "demo_test w p = (if Name p = ''alpha'' then Some (NewtError ''alpha: FAIL'') else None)"

text \<open>The test action of alpha fails with an error of another dynamic type.\<close>

definition demo_test_foreign :: "nat \<Rightarrow> local_package \<Rightarrow> go_error option" where
  "demo_test_foreign w p =
     (if Name p = ''alpha'' then Some (ForeignError ''exit status 1'') else None)"

text \<open>Every test action of the first generation after the start fails, the later ones pass.\<close>

definition demo_test_flaky :: "nat \<Rightarrow> local_package \<Rightarrow> go_error option" where
  "demo_test_flaky w p = (if w = 1 then Some (NewtError ''FAIL'') else None)"

text \<open>A resolver that knows the packages only in the generations before the given one.\<close>

definition demo_resolve_until :: "nat \<Rightarrow> nat \<Rightarrow> string \<Rightarrow> go_error + local_package" where
  "demo_resolve_until k w n =
     (if w < k then demo_resolve w n else Inl (NewtError ''project not loaded''))"

definition demo_start :: "(nat, string, string \<times> nat) state" where
  "demo_start = \<lparr>world = 0, events = []\<rparr>"

text \<open>The fields of the small project, so that a run unfolds only the calls it makes.\<close>

lemma demo_env_sel:
  "Initialize (demo_env rp tst) = (\<lambda>w. (None, w))"
  "ResetProject (demo_env rp tst) = Suc"
  "PackageList (demo_env rp tst) = (\<lambda>w.
     [(''core'', [(''alpha'', LocalPackage (demo_pkg ''core'' ''alpha'')),
                 (''beta'', LocalPackage (demo_pkg ''core'' ''beta''))]),
      (''extra'', [(''gamma'', LocalPackage (demo_pkg ''extra'' ''gamma''))])])"
  "NodeExist (demo_env rp tst) =
     (\<lambda>w p. p = ''core/alpha/src/test'' \<or> p = ''extra/gamma/src/test'')"
  "ResolveTarget (demo_env rp tst) =
     (\<lambda>w n. if n = ''unittest'' \<or> n = ''blinky'' then Some n else None)"
  "ResolvePackage (demo_env rp tst) = rp"
  "NewBuilder (demo_env rp tst) = (\<lambda>w t. (Inr (t, w), w))"
  "Build (demo_env rp tst) = (\<lambda>w b. (None, w))"
  "Clean (demo_env rp tst) = (\<lambda>w b. (None, w))"
  "Test (demo_env rp tst) = (\<lambda>w b p. (tst w p, w))"
  "AppElfPath (demo_env rp tst) = (\<lambda>w b. ''bin/'' @ fst b @ ''/app.elf'')"
  "BinRoot (demo_env rp tst) = (\<lambda>w. ''bin'')"
  "RemoveAll (demo_env rp tst) = (\<lambda>w p. (None, w))"
  "PackageNameList (demo_env rp tst) = demo_names"
  by (simp_all add: demo_env_def)

lemmas demo_simps =
  demo_env_sel demo_resolve_def demo_test_def demo_test_foreign_def demo_test_flaky_def
  demo_resolve_until_def demo_start_def demo_pkg_def

lemmas call_defs =
  do_Initialize_def do_ResetProject_def do_ResolveTarget_def do_ResolvePackage_def
  do_NewBuilder_def do_Build_def do_Clean_def do_Test_def do_RemoveAll_def
  StatusMessage_def emit_def

lemmas run_defs =
  testRunCmd_def testRunCmd_select_def testRunCmd_cycle_def testRunCmd_report_def
  pkgIsTestable_def TARGET_TEST_NAME_def NewNewtError_def Let_def

section \<open>The loops of the test command\<close>

subsection \<open>Resolving the arguments\<close>

lemma explicit_names_simps [simp]:
  "explicit_names [] = []"
  "explicit_names (a # args) = (if a = ''all'' then explicit_names args else a # explicit_names args)"
  "explicit_names (xs @ ys) = explicit_names xs @ explicit_names ys"
  by (simp_all add: explicit_names_def)

lemma testRunCmd_resolve_append:
  "testRunCmd_resolve env (xs @ ys) testAll packs s =
     (case testRunCmd_resolve env xs testAll packs s of
        (Inl a, s') \<Rightarrow> (Inl a, s')
      | (Inr (testAll', packs'), s') \<Rightarrow> testRunCmd_resolve env ys testAll' packs' s')"
  by (induction xs arbitrary: testAll packs s) (simp_all split: prod.splits sum.splits)

lemma testRunCmd_resolve_ok:
  "\<forall>a\<in>set args. a \<noteq> ''all'' \<longrightarrow> \<not> isl (ResolvePackage env (world s) a) \<Longrightarrow>
   testRunCmd_resolve env args testAll packs s =
     (Inr (testAll \<or> ''all'' \<in> set args,
           packs @ map (\<lambda>a. projr (ResolvePackage env (world s) a)) (explicit_names args)),
      s\<lparr>events := events s @ map Ev_ResolvePackage (explicit_names args)\<rparr>)"
proof (induction args arbitrary: testAll packs s)
  case Nil
  then show ?case by simp
next
  case (Cons a args)
  show ?case
  proof (cases "a = ''all''")
    case True
    with Cons.prems have "\<forall>x\<in>set args. x \<noteq> ''all'' \<longrightarrow> \<not> isl (ResolvePackage env (world s) x)"
      by simp
    from Cons.IH [OF this] True show ?thesis by simp
  next
    case False
    with Cons.prems obtain pack where r: "ResolvePackage env (world s) a = Inr pack"
      by (cases "ResolvePackage env (world s) a") auto
    let ?s1 = "emit (Ev_ResolvePackage a) s"
    have w: "world ?s1 = world s" by (simp add: emit_def)
    from Cons.prems have "\<forall>x\<in>set args. x \<noteq> ''all'' \<longrightarrow> \<not> isl (ResolvePackage env (world ?s1) x)"
      by (simp add: w)
    from Cons.IH [OF this, of testAll "packs @ [pack]"] False r show ?thesis
      by (simp add: do_ResolvePackage_def w) (simp add: emit_def)
  qed
qed

lemma testRunCmd_resolve_fail:
  "a \<noteq> ''all'' \<Longrightarrow> ResolvePackage env (world s) a = Inl err \<Longrightarrow>
   testRunCmd_resolve env (a # post) testAll packs s =
     (Inl (NewtUsage True (Some err)), s\<lparr>events := events s @ [Ev_ResolvePackage a]\<rparr>)"
  by (simp add: do_ResolvePackage_def emit_def)

lemma testRunCmd_resolve_first_fail:
  assumes pre: "\<forall>x\<in>set pre. x \<noteq> ''all'' \<longrightarrow> \<not> isl (ResolvePackage env (world s) x)"
    and a: "a \<noteq> ''all''" and r: "ResolvePackage env (world s) a = Inl err"
  shows "testRunCmd_resolve env (pre @ a # post) testAll packs s =
     (Inl (NewtUsage True (Some err)),
      s\<lparr>events := events s @ map Ev_ResolvePackage (explicit_names pre @ [a])\<rparr>)"
proof -
  let ?s1 = "s\<lparr>events := events s @ map Ev_ResolvePackage (explicit_names pre)\<rparr>"
  have w: "world ?s1 = world s" by simp
  have "ResolvePackage env (world ?s1) a = Inl err" using r by simp
  from testRunCmd_resolve_fail [OF a this] show ?thesis
    by (simp add: testRunCmd_resolve_append testRunCmd_resolve_ok [OF pre])
qed

lemma testRunCmd_resolve_Inr:
  assumes "testRunCmd_resolve env args testAll packs s = (Inr r, s')"
  shows "\<forall>a\<in>set args. a \<noteq> ''all'' \<longrightarrow> \<not> isl (ResolvePackage env (world s) a)"
proof (rule ccontr)
  assume "\<not> ?thesis"
  then have "\<exists>a\<in>set args. a \<noteq> ''all'' \<and> isl (ResolvePackage env (world s) a)" by blast
  then obtain pre a post where args: "args = pre @ a # post"
    and bad: "a \<noteq> ''all'' \<and> isl (ResolvePackage env (world s) a)"
    and pre: "\<forall>x\<in>set pre. \<not> (x \<noteq> ''all'' \<and> isl (ResolvePackage env (world s) x))"
    by (auto dest!: split_list_first_prop)
  from bad obtain err where "ResolvePackage env (world s) a = Inl err"
    by (cases "ResolvePackage env (world s) a") auto
  with testRunCmd_resolve_first_fail [of pre env s a err post testAll packs] pre bad assms args
  show False by auto
qed

subsection \<open>Selecting every testable package\<close>

lemma testRunCmd_repo_set:
  "testRunCmd_repo env w repoHash packs = Inr ps \<Longrightarrow>
   set ps = set packs \<union> {p. \<exists>n. (n, LocalPackage p) \<in> set repoHash \<and> pkgIsTestable env w p}"
proof (induction repoHash arbitrary: packs)
  case Nil
  then show ?case by auto
next
  case (Cons np repoHash)
  obtain n pack where np: "np = (n, pack)" by (cases np)
  show ?case
  proof (cases pack)
    case ForeignPackage
    with Cons.prems np show ?thesis by simp
  next
    case (LocalPackage lclPack)
    show ?thesis
    proof (cases "pkgIsTestable env w lclPack")
      case True
      with Cons.prems np LocalPackage
      have "testRunCmd_repo env w repoHash (packs @ [lclPack]) = Inr ps" by simp
      from Cons.IH [OF this] np LocalPackage True show ?thesis by auto
    next
      case False
      with Cons.prems np LocalPackage
      have "testRunCmd_repo env w repoHash packs = Inr ps" by simp
      from Cons.IH [OF this] np LocalPackage False show ?thesis by auto
    qed
  qed
qed

lemma testRunCmd_all_set:
  "testRunCmd_all env w repos packs = Inr ps \<Longrightarrow>
   set ps = set packs \<union>
     {p. \<exists>r repoHash n. (r, repoHash) \<in> set repos \<and> (n, LocalPackage p) \<in> set repoHash \<and>
           pkgIsTestable env w p}"
proof (induction repos arbitrary: packs)
  case Nil
  then show ?case by auto
next
  case (Cons rr repos)
  obtain r repoHash where rr: "rr = (r, repoHash)" by (cases rr)
  from Cons.prems rr obtain mid where
    m1: "testRunCmd_repo env w repoHash packs = Inr mid" and
    m2: "testRunCmd_all env w repos mid = Inr ps"
    by (auto split: sum.splits)
  from testRunCmd_repo_set [OF m1] Cons.IH [OF m2] rr show ?case by auto
qed

lemma testRunCmd_select_all:
  assumes all: "''all'' \<in> set args"
    and sel: "testRunCmd_select env args s0 = (Inr packs, s1)"
  shows "\<exists>w1. Initialize env (world s0) = (None, w1) \<and>
           testRunCmd_all env w1 (PackageList env w1) [] = Inr packs \<and>
           s1 = s0\<lparr>world := w1,
                   events := events s0 @
                     Ev_Initialize # map Ev_ResolvePackage (explicit_names args) @
                     [Ev_PackageList]\<rparr>"
proof -
  obtain ierr w1 where init: "Initialize env (world s0) = (ierr, w1)"
    by (cases "Initialize env (world s0)")
  let ?s1 = "emit Ev_Initialize (s0\<lparr>world := w1\<rparr>)"
  have w: "world ?s1 = w1" by (simp add: emit_def)
  from sel init have ok: "ierr = None"
    by (cases ierr) (simp_all add: testRunCmd_select_def do_Initialize_def)
  from all have ne: "\<not> length args < 1" by (cases args) simp_all
  obtain r s2 where res: "testRunCmd_resolve env args False [] ?s1 = (r, s2)"
    by (cases "testRunCmd_resolve env args False [] ?s1")
  from sel init ok ne res obtain ta ps where r: "r = Inr (ta, ps)"
    by (cases r) (auto simp add: testRunCmd_select_def do_Initialize_def)
  from res r have "\<forall>a\<in>set args. a \<noteq> ''all'' \<longrightarrow> \<not> isl (ResolvePackage env (world ?s1) a)"
    by (intro testRunCmd_resolve_Inr) simp
  from testRunCmd_resolve_ok [OF this, of False "[]"] res r all
  have ta: "ta" and s2: "s2 = ?s1\<lparr>events := events ?s1 @ map Ev_ResolvePackage (explicit_names args)\<rparr>"
    by simp_all
  from sel init ok ne res r ta s2 show ?thesis
    by (simp add: testRunCmd_select_def do_Initialize_def Let_def w) (auto simp add: emit_def)
qed

subsection \<open>One cycle, and the loop over the selection\<close>

lemma test_calls_append [simp]: "test_calls (xs @ ys) = test_calls xs @ test_calls ys"
  by (induction xs rule: test_calls.induct) simp_all

lemma resolve_calls_append [simp]: "resolve_calls (xs @ ys) = resolve_calls xs @ resolve_calls ys"
  by (induction xs rule: resolve_calls.induct) simp_all

lemma testRunCmd_cycle_complete:
  assumes "ResolveTarget env (ResetProject env (world s)) ''unittest'' = Some t"
    and "NewBuilder env (ResetProject env (world s)) t = (Inr b, w2)"
    and "ResolvePackage env w2 (FullName pack) = Inr newPack"
    and "Test env w2 b newPack = (err, w3)"
  shows "testRunCmd_cycle env pack s =
     (Inr (newPack, err),
      s\<lparr>world := w3,
        events := events s @
          [Ev_ResetProject, Ev_ResolveTarget ''unittest'', Ev_NewBuilder t,
           Ev_StatusMessage VERBOSITY_DEFAULT ''Testing package %s\<newline>'' [FullName pack],
           Ev_ResolvePackage (FullName pack), Ev_Test b newPack err]\<rparr>)"
  using assms by (simp add: testRunCmd_cycle_def TARGET_TEST_NAME_def call_defs)

lemma testRunCmd_cycle_unresolved:
  assumes "ResolveTarget env (ResetProject env (world s)) ''unittest'' = Some t"
    and "NewBuilder env (ResetProject env (world s)) t = (Inr b, w2)"
    and "ResolvePackage env w2 (FullName pack) = Inl err"
  shows "testRunCmd_cycle env pack s =
     (Inl (NewtUsage False (Some (NewtError (''Failed to resolve package: '' @ Name pack)))),
      s\<lparr>world := w2,
        events := events s @
          [Ev_ResetProject, Ev_ResolveTarget ''unittest'', Ev_NewBuilder t,
           Ev_StatusMessage VERBOSITY_DEFAULT ''Testing package %s\<newline>'' [FullName pack],
           Ev_ResolvePackage (FullName pack)]\<rparr>)"
  using assms
  by (simp add: testRunCmd_cycle_def TARGET_TEST_NAME_def call_defs NewNewtError_def)

lemma testRunCmd_cycle_Inr:
  assumes "testRunCmd_cycle env pack s = (Inr (newPack, err), s1)"
  shows "\<exists>t b w2 w3.
           ResolveTarget env (ResetProject env (world s)) ''unittest'' = Some t \<and>
           NewBuilder env (ResetProject env (world s)) t = (Inr b, w2) \<and>
           ResolvePackage env w2 (FullName pack) = Inr newPack \<and>
           Test env w2 b newPack = (err, w3) \<and>
           s1 = s\<lparr>world := w3,
                  events := events s @
                    [Ev_ResetProject, Ev_ResolveTarget ''unittest'', Ev_NewBuilder t,
                     Ev_StatusMessage VERBOSITY_DEFAULT ''Testing package %s\<newline>''
                       [FullName pack],
                     Ev_ResolvePackage (FullName pack), Ev_Test b newPack err]\<rparr>"
  using assms
  by (auto simp add: testRunCmd_cycle_def TARGET_TEST_NAME_def call_defs Let_def
      split: option.splits sum.splits prod.splits)

lemma testRunCmd_cycle_starts:
  "\<exists>more. events (snd (testRunCmd_cycle env pack s)) =
            events s @ Ev_ResetProject # Ev_ResolveTarget ''unittest'' # more"
  by (auto simp add: testRunCmd_cycle_def TARGET_TEST_NAME_def call_defs Let_def
      split: option.splits sum.splits prod.splits)

lemma testRunCmd_cycles_append:
  "testRunCmd_cycles env (xs @ ys) passedPkgs failedPkgs s =
     (case testRunCmd_cycles env xs passedPkgs failedPkgs s of
        (Inl a, s') \<Rightarrow> (Inl a, s')
      | (Inr (passedPkgs', failedPkgs'), s') \<Rightarrow>
          testRunCmd_cycles env ys passedPkgs' failedPkgs' s')"
  by (induction xs arbitrary: passedPkgs failedPkgs s)
    (simp_all split: prod.splits sum.splits option.splits go_error.splits)

lemma testRunCmd_cycles_trace:
  "testRunCmd_cycles env packs passedPkgs failedPkgs s = (Inr (P, F), s') \<Longrightarrow>
   \<exists>new. events s' = events s @ new \<and>
     length (test_calls new) = length packs \<and>
     resolve_calls new = map FullName packs \<and>
     length (filter (\<lambda>e. e = Ev_ResetProject) new) = length packs \<and>
     P = passedPkgs @ map fst (filter (\<lambda>(p, r). r = None) (test_calls new)) \<and>
     F = failedPkgs @ map fst (filter (\<lambda>(p, r). r \<noteq> None) (test_calls new)) \<and>
     ((\<forall>w n p. ResolvePackage env w n = Inr p \<longrightarrow> FullName p = n) \<longrightarrow>
        map (\<lambda>(p, r). FullName p) (test_calls new) = map FullName packs)"
proof (induction packs arbitrary: passedPkgs failedPkgs s)
  case Nil
  then show ?case by simp
next
  case (Cons pack packs)
  obtain c s1 where cyc: "testRunCmd_cycle env pack s = (c, s1)"
    by (cases "testRunCmd_cycle env pack s")
  from Cons.prems cyc obtain newPack err where c: "c = Inr (newPack, err)"
    by (cases c) auto
  from testRunCmd_cycle_Inr [OF cyc [unfolded c]] obtain t b w2 w3 where
    res: "ResolvePackage env w2 (FullName pack) = Inr newPack" and
    s1: "s1 = s\<lparr>world := w3,
                  events := events s @
                    [Ev_ResetProject, Ev_ResolveTarget ''unittest'', Ev_NewBuilder t,
                     Ev_StatusMessage VERBOSITY_DEFAULT ''Testing package %s\<newline>''
                       [FullName pack],
                     Ev_ResolvePackage (FullName pack), Ev_Test b newPack err]\<rparr>"
    by blast
  show ?case
  proof (cases err)
    case None
    with Cons.prems cyc c
    have "testRunCmd_cycles env packs (passedPkgs @ [newPack]) failedPkgs s1 = (Inr (P, F), s')"
      by simp
    from Cons.IH [OF this] obtain new where
      "events s' = events s1 @ new"
      "length (test_calls new) = length packs"
      "resolve_calls new = map FullName packs"
      "length (filter (\<lambda>e. e = Ev_ResetProject) new) = length packs"
      "P = (passedPkgs @ [newPack]) @ map fst (filter (\<lambda>(p, r). r = None) (test_calls new))"
      "F = failedPkgs @ map fst (filter (\<lambda>(p, r). r \<noteq> None) (test_calls new))"
      "(\<forall>w n p. ResolvePackage env w n = Inr p \<longrightarrow> FullName p = n) \<longrightarrow>
         map (\<lambda>(p, r). FullName p) (test_calls new) = map FullName packs"
      by blast
    with None res show ?thesis
      by (intro exI [of _ "drop (length (events s)) (events s1) @ new"]) (auto simp add: s1)
  next
    case (Some e)
    show ?thesis
    proof (cases e)
      case (ForeignError m)
      with Cons.prems cyc c Some show ?thesis by simp
    next
      case NilNewtError
      with Cons.prems cyc c Some show ?thesis by simp
    next
      case (NewtError msg)
      let ?s2 = "StatusMessage VERBOSITY_QUIET msg [] s1"
      from Cons.prems cyc c Some NewtError
      have "testRunCmd_cycles env packs passedPkgs (failedPkgs @ [newPack]) ?s2 = (Inr (P, F), s')"
        by simp
      from Cons.IH [OF this] obtain new where
        "events s' = events ?s2 @ new"
        "length (test_calls new) = length packs"
        "resolve_calls new = map FullName packs"
        "length (filter (\<lambda>e. e = Ev_ResetProject) new) = length packs"
        "P = passedPkgs @ map fst (filter (\<lambda>(p, r). r = None) (test_calls new))"
        "F = (failedPkgs @ [newPack]) @ map fst (filter (\<lambda>(p, r). r \<noteq> None) (test_calls new))"
        "(\<forall>w n p. ResolvePackage env w n = Inr p \<longrightarrow> FullName p = n) \<longrightarrow>
           map (\<lambda>(p, r). FullName p) (test_calls new) = map FullName packs"
        by blast
      with Some NewtError res show ?thesis
        by (intro exI [of _ "drop (length (events s)) (events ?s2) @ new"])
          (auto simp add: s1 StatusMessage_def emit_def)
    qed
  qed
qed

lemma testRunCmd_cycles_panic:
  "fst (testRunCmd_cycles env packs passedPkgs failedPkgs s) = Inl Panic \<Longrightarrow>
   \<exists>evs b p m. events (snd (testRunCmd_cycles env packs passedPkgs failedPkgs s)) =
     evs @ [Ev_Test b p (Some (ForeignError m))]"
proof (induction packs arbitrary: passedPkgs failedPkgs s)
  case Nil
  then show ?case by simp
next
  case (Cons pack packs)
  obtain c s1 where cyc: "testRunCmd_cycle env pack s = (c, s1)"
    by (cases "testRunCmd_cycle env pack s")
  show ?case
  proof (cases c)
    case (Inl a)
    with Cons.prems cyc have "a = Panic" by simp
    with cyc Inl show ?thesis
      by (auto simp add: testRunCmd_cycle_def TARGET_TEST_NAME_def call_defs Let_def
          split: option.splits sum.splits prod.splits)
  next
    case (Inr pr)
    obtain newPack err where pr: "pr = (newPack, err)" by (cases pr)
    from testRunCmd_cycle_Inr [OF cyc [unfolded Inr pr]] obtain t b w3 where
      s1: "s1 = s\<lparr>world := w3,
                  events := events s @
                    [Ev_ResetProject, Ev_ResolveTarget ''unittest'', Ev_NewBuilder t,
                     Ev_StatusMessage VERBOSITY_DEFAULT ''Testing package %s\<newline>''
                       [FullName pack],
                     Ev_ResolvePackage (FullName pack), Ev_Test b newPack err]\<rparr>"
      by blast
    show ?thesis
    proof (cases err)
      case None
      with Cons.prems cyc Inr pr Cons.IH [of "passedPkgs @ [newPack]" failedPkgs s1]
      show ?thesis by simp
    next
      case (Some e)
      show ?thesis
      proof (cases e)
        case (ForeignError m)
        with cyc Inr pr Some s1 show ?thesis by simp
      next
        case NilNewtError
        with Cons.prems cyc Inr pr Some show ?thesis by simp
      next
        case (NewtError msg)
        with Cons.prems cyc Inr pr Some
          Cons.IH [of passedPkgs "failedPkgs @ [newPack]" "StatusMessage VERBOSITY_QUIET msg [] s1"]
        show ?thesis by simp
      qed
    qed
  qed
qed

text \<open>
  The nil pointer of type \<^verbatim>\<open>*util.NewtError\<close> as the error of a test action passes the
  type assertion and stops the command at the read of its text.
\<close>

lemma testRunCmd_cycles_nil_error:
  assumes pre: "testRunCmd_cycles env pre [] [] s1 = (Inr (passedPkgs, failedPkgs), s)"
    and tgt: "ResolveTarget env (ResetProject env (world s)) ''unittest'' = Some t"
    and bld: "NewBuilder env (ResetProject env (world s)) t = (Inr b, w2)"
    and res: "ResolvePackage env w2 (FullName pack) = Inr newPack"
    and tst: "Test env w2 b newPack = (Some NilNewtError, w3)"
  shows "testRunCmd_cycles env (pre @ pack # rest) [] [] s1 =
     (Inl NilPanic,
      s\<lparr>world := w3,
        events := events s @
          [Ev_ResetProject, Ev_ResolveTarget ''unittest'', Ev_NewBuilder t,
           Ev_StatusMessage VERBOSITY_DEFAULT ''Testing package %s\<newline>'' [FullName pack],
           Ev_ResolvePackage (FullName pack), Ev_Test b newPack (Some NilNewtError)]\<rparr>)"
  using pre testRunCmd_cycle_complete [OF tgt bld res tst]
  by (simp add: testRunCmd_cycles_append)

lemma outcome_partition:
  "length (filter (\<lambda>(p, r). r = None) outs) + length (filter (\<lambda>(p, r). r \<noteq> None) outs) =
   length outs"
  by (induction outs) auto

subsection \<open>The loops of the clean command\<close>

lemma cleanRunCmd_classify_ok:
  "\<forall>a\<in>set args. a \<noteq> ''all'' \<longrightarrow> ResolveTarget env (world s) a \<noteq> None \<Longrightarrow>
   cleanRunCmd_classify env args cleanAll targets s =
     (Inr (cleanAll \<or> ''all'' \<in> set args,
           targets @ map (\<lambda>a. the (ResolveTarget env (world s) a)) (explicit_names args)),
      s\<lparr>events := events s @ map Ev_ResolveTarget (explicit_names args)\<rparr>)"
proof (induction args arbitrary: cleanAll targets s)
  case Nil
  then show ?case by simp
next
  case (Cons a args)
  show ?case
  proof (cases "a = ''all''")
    case True
    with Cons.prems have "\<forall>x\<in>set args. x \<noteq> ''all'' \<longrightarrow> ResolveTarget env (world s) x \<noteq> None"
      by simp
    from Cons.IH [OF this] True show ?thesis by (simp add: TARGET_KEYWORD_ALL_def)
  next
    case False
    with Cons.prems obtain t where r: "ResolveTarget env (world s) a = Some t"
      by auto
    let ?s1 = "emit (Ev_ResolveTarget a) s"
    have w: "world ?s1 = world s" by (simp add: emit_def)
    from Cons.prems have "\<forall>x\<in>set args. x \<noteq> ''all'' \<longrightarrow> ResolveTarget env (world ?s1) x \<noteq> None"
      by (simp add: w)
    from Cons.IH [OF this, of cleanAll "targets @ [t]"] False r show ?thesis
      by (simp add: do_ResolveTarget_def w TARGET_KEYWORD_ALL_def) (simp add: emit_def)
  qed
qed

lemma cleanRunCmd_targets_threaded:
  "cleanRunCmd_targets env ts s = (None, s') \<Longrightarrow>
   \<exists>bs ws. length bs = length ts \<and> length ws = Suc (length ts) \<and>
     ws ! 0 = world s \<and> ws ! length ts = world s' \<and>
     (\<forall>i<length ts. \<exists>wm.
        NewBuilder env (ws ! i) (ts ! i) = (Inr (bs ! i), wm) \<and>
        Clean env wm (bs ! i) = (None, ws ! Suc i)) \<and>
     events s' = events s @ concat (map (\<lambda>(t, b). [Ev_NewBuilder t, Ev_Clean b]) (zip ts bs))"
proof (induction ts arbitrary: s)
  case Nil
  then show ?case by (intro exI [of _ "[]"] exI [of _ "[world s]"]) simp
next
  case (Cons t ts)
  obtain r w1 where nb: "NewBuilder env (world s) t = (r, w1)"
    by (cases "NewBuilder env (world s) t")
  from Cons.prems nb obtain b where r: "r = Inr b"
    by (cases r) (auto simp add: do_NewBuilder_def)
  let ?s1 = "emit (Ev_NewBuilder t) (s\<lparr>world := w1\<rparr>)"
  have w1: "world ?s1 = w1" by (simp add: emit_def)
  obtain cerr w2 where cl: "Clean env w1 b = (cerr, w2)"
    by (cases "Clean env w1 b")
  from Cons.prems nb r cl have c: "cerr = None"
    by (cases cerr) (auto simp add: do_NewBuilder_def do_Clean_def w1)
  let ?s2 = "emit (Ev_Clean b) (?s1\<lparr>world := w2\<rparr>)"
  have w2: "world ?s2 = w2" by (simp add: emit_def)
  from Cons.prems nb r cl c have "cleanRunCmd_targets env ts ?s2 = (None, s')"
    by (simp add: do_NewBuilder_def do_Clean_def w1)
  from Cons.IH [OF this] obtain bs ws where
    lb: "length bs = length ts" and lw: "length ws = Suc (length ts)" and
    w0: "ws ! 0 = w2" and wl: "ws ! length ts = world s'" and
    st: "\<forall>i<length ts. \<exists>wm.
        NewBuilder env (ws ! i) (ts ! i) = (Inr (bs ! i), wm) \<and>
        Clean env wm (bs ! i) = (None, ws ! Suc i)" and
    ev: "events s' = events ?s2 @
           concat (map (\<lambda>(t, b). [Ev_NewBuilder t, Ev_Clean b]) (zip ts bs))"
    unfolding w2 by blast
  have step: "\<exists>wm. NewBuilder env ((world s # ws) ! i) ((t # ts) ! i) = (Inr ((b # bs) ! i), wm) \<and>
        Clean env wm ((b # bs) ! i) = (None, (world s # ws) ! Suc i)"
    if i: "i < length (t # ts)" for i
  proof (cases i)
    case 0
    with nb r cl c w0 show ?thesis by simp
  next
    case (Suc j)
    with i st show ?thesis by simp
  qed
  show ?case
  proof (intro exI [of _ "b # bs"] exI [of _ "world s # ws"] conjI allI impI)
    show "length (b # bs) = length (t # ts)" by (simp add: lb)
    show "length (world s # ws) = Suc (length (t # ts))" by (simp add: lw)
    show "(world s # ws) ! 0 = world s" by simp
    show "(world s # ws) ! length (t # ts) = world s'" by (simp add: wl)
    show "\<exists>wm. NewBuilder env ((world s # ws) ! i) ((t # ts) ! i) = (Inr ((b # bs) ! i), wm) \<and>
        Clean env wm ((b # bs) ! i) = (None, (world s # ws) ! Suc i)"
      if "i < length (t # ts)" for i
      using step [OF that] .
    show "events s' = events s @
        concat (map (\<lambda>(t, b). [Ev_NewBuilder t, Ev_Clean b]) (zip (t # ts) (b # bs)))"
      using ev by (simp add: emit_def)
  qed
qed

section \<open>The build command\<close>

text \<open>
  C8. For every invocation of the build command: a failed initialisation, an empty
  argument list, a first argument that does not resolve to a target (reported as
  "invalid target name: " followed by the argument), a failed construction of the
  builder and a failed Build action each end in the fatal exit \<open>NewtUsage\<close>; otherwise
  the trace holds exactly one Build action, and on its success the last event is the
  confirmation whose argument is the path \<open>AppElfPath\<close> of the builder. In each case
  the trace shows which calls were made: no Build action before the builder exists,
  one Build action in the last two cases.
\<close>

theorem buildRunCmd_lifecycle:
  "(\<forall>err w1. Initialize env (world s) = (Some err, w1) \<longrightarrow>
      buildRunCmd env args s =
        (Some (NewtUsage True (Some err)),
         s\<lparr>world := w1, events := events s @ [Ev_Initialize]\<rparr>))
   \<and> (\<forall>w1. Initialize env (world s) = (None, w1) \<and> args = [] \<longrightarrow>
      buildRunCmd env args s =
        (Some (NewtUsage True None), s\<lparr>world := w1, events := events s @ [Ev_Initialize]\<rparr>))
   \<and> (\<forall>w1 a rest. Initialize env (world s) = (None, w1) \<and> args = a # rest \<and>
        ResolveTarget env w1 a = None \<longrightarrow>
      buildRunCmd env args s =
        (Some (NewtUsage True (Some (NewtError (''invalid target name: '' @ a)))),
         s\<lparr>world := w1, events := events s @ [Ev_Initialize, Ev_ResolveTarget a]\<rparr>))
   \<and> (\<forall>w1 a rest t err w2. Initialize env (world s) = (None, w1) \<and> args = a # rest \<and>
        ResolveTarget env w1 a = Some t \<and> NewBuilder env w1 t = (Inl err, w2) \<longrightarrow>
      buildRunCmd env args s =
        (Some (NewtUsage False (Some err)),
         s\<lparr>world := w2,
           events := events s @ [Ev_Initialize, Ev_ResolveTarget a, Ev_NewBuilder t]\<rparr>))
   \<and> (\<forall>w1 a rest t b w2 err w3. Initialize env (world s) = (None, w1) \<and> args = a # rest \<and>
        ResolveTarget env w1 a = Some t \<and> NewBuilder env w1 t = (Inr b, w2) \<and>
        Build env w2 b = (Some err, w3) \<longrightarrow>
      buildRunCmd env args s =
        (Some (NewtUsage False (Some err)),
         s\<lparr>world := w3,
           events := events s @
             [Ev_Initialize, Ev_ResolveTarget a, Ev_NewBuilder t, Ev_Build b]\<rparr>))
   \<and> (\<forall>w1 a rest t b w2 w3. Initialize env (world s) = (None, w1) \<and> args = a # rest \<and>
        ResolveTarget env w1 a = Some t \<and> NewBuilder env w1 t = (Inr b, w2) \<and>
        Build env w2 b = (None, w3) \<longrightarrow>
      buildRunCmd env args s =
        (None,
         s\<lparr>world := w3,
           events := events s @
             [Ev_Initialize, Ev_ResolveTarget a, Ev_NewBuilder t, Ev_Build b,
              Ev_StatusMessage VERBOSITY_DEFAULT ''App successfully built: %s\<newline>''
                [AppElfPath env w3 b]]\<rparr>))"
  by (simp add: buildRunCmd_def call_defs NewNewtError_def)

theorem buildRunCmd_lifecycle_witness:
  "Initialize (demo_env demo_resolve demo_test) (world demo_start) = (None, 0)
   \<and> ResolveTarget (demo_env demo_resolve demo_test) 0 ''blinky'' = Some ''blinky''
   \<and> NewBuilder (demo_env demo_resolve demo_test) 0 ''blinky'' = (Inr (''blinky'', 0), 0)
   \<and> Build (demo_env demo_resolve demo_test) 0 (''blinky'', 0) = (None, 0)
   \<and> ResolveTarget (demo_env demo_resolve demo_test) 0 ''blink'' = None
   \<and> buildRunCmd (demo_env demo_resolve demo_test) [''blinky''] demo_start =
     (None,
      \<lparr>world = 0,
       events = [Ev_Initialize, Ev_ResolveTarget ''blinky'', Ev_NewBuilder ''blinky'',
                 Ev_Build (''blinky'', 0),
                 Ev_StatusMessage VERBOSITY_DEFAULT ''App successfully built: %s\<newline>''
                   [''bin/blinky/app.elf'']]\<rparr>)
   \<and> buildRunCmd (demo_env demo_resolve demo_test) [''blink''] demo_start =
     (Some (NewtUsage True (Some (NewtError ''invalid target name: blink''))),
      \<lparr>world = 0, events = [Ev_Initialize, Ev_ResolveTarget ''blink'']\<rparr>)
   \<and> buildRunCmd (demo_env demo_resolve demo_test) [] demo_start =
     (Some (NewtUsage True None), \<lparr>world = 0, events = [Ev_Initialize]\<rparr>)"
  using buildRunCmd_lifecycle [of "demo_env demo_resolve demo_test" demo_start "[''blinky'']"]
    buildRunCmd_lifecycle [of "demo_env demo_resolve demo_test" demo_start "[''blink'']"]
    buildRunCmd_lifecycle [of "demo_env demo_resolve demo_test" demo_start "[]"]
  by (simp add: demo_simps)

section \<open>The test command\<close>

text \<open>
  C1. Take a batch over a selection \<open>packs\<close> of N packages whose cycles all complete, and
  let K be the number of test actions of the batch that returned an error. Then the
  batch made N test actions, one for each selected package in the order of the
  selection (the resolver was asked for the full names of the selection, in order, and
  where the resolver returns the package it was asked for, the packages tested carry
  those names); the passed list is exactly the packages whose test action returned no
  error and the failed list exactly those whose test action returned one, both in the
  order of the cycles, so their lengths are N - K and K; the aggregation ends in the
  exit \<open>NewtUsage\<close> if and only if K > 0, with the error text "Test failure(s):"
  followed by the names of the passed list and of the failed list, and otherwise prints
  the passed list and "All tests passed"; and for a non-empty selection this is the
  result of the whole command.
\<close>

theorem testRunCmd_batch_outcome:
  assumes run: "testRunCmd_cycles env packs [] [] s1 = (Inr (passedPkgs, failedPkgs), s2)"
  shows "let new = drop (length (events s1)) (events s2);
             outs = test_calls new;
             K = length (filter (\<lambda>(p, r). r \<noteq> None) outs)
         in events s2 = events s1 @ new
          \<and> length outs = length packs
          \<and> resolve_calls new = map FullName packs
          \<and> ((\<forall>w n p. ResolvePackage env w n = Inr p \<longrightarrow> FullName p = n) \<longrightarrow>
                map (\<lambda>(p, r). FullName p) outs = map FullName packs)
          \<and> passedPkgs = map fst (filter (\<lambda>(p, r). r = None) outs)
          \<and> failedPkgs = map fst (filter (\<lambda>(p, r). r \<noteq> None) outs)
          \<and> length failedPkgs = K
          \<and> length passedPkgs = length packs - K
          \<and> (exits_nonzero (fst (testRunCmd_report env passedPkgs failedPkgs s2)) \<longleftrightarrow> 0 < K)
          \<and> (0 < K \<longrightarrow>
                testRunCmd_report env passedPkgs failedPkgs s2 =
                  (Some (NewtUsage False (Some (NewtError
                     (''Test failure(s):\<newline>Passed tests: ['' @ PackageNameList env passedPkgs @
                      '']\<newline>Failed tests: ['' @ PackageNameList env failedPkgs @ '']'')))),
                   s2))
          \<and> (K = 0 \<longrightarrow>
                testRunCmd_report env passedPkgs failedPkgs s2 =
                  (None,
                   s2\<lparr>events := events s2 @
                      [Ev_StatusMessage VERBOSITY_DEFAULT ''%s\<newline>''
                         [''Passed tests: ['' @ PackageNameList env passedPkgs @ '']''],
                       Ev_StatusMessage VERBOSITY_DEFAULT ''All tests passed\<newline>'' []]\<rparr>))
          \<and> (\<forall>args s0. testRunCmd_select env args s0 = (Inr packs, s1) \<and> packs \<noteq> [] \<longrightarrow>
                testRunCmd env args s0 = testRunCmd_report env passedPkgs failedPkgs s2)"
proof -
  from testRunCmd_cycles_trace [OF run] obtain new where
    ev: "events s2 = events s1 @ new" and
    len: "length (test_calls new) = length packs" and
    rc: "resolve_calls new = map FullName packs" and
    P: "passedPkgs = map fst (filter (\<lambda>(p, r). r = None) (test_calls new))" and
    F: "failedPkgs = map fst (filter (\<lambda>(p, r). r \<noteq> None) (test_calls new))" and
    nm: "(\<forall>w n p. ResolvePackage env w n = Inr p \<longrightarrow> FullName p = n) \<longrightarrow>
           map (\<lambda>(p, r). FullName p) (test_calls new) = map FullName packs"
    by auto
  have new: "drop (length (events s1)) (events s2) = new" by (simp add: ev)
  let ?outs = "test_calls new"
  let ?K = "length (filter (\<lambda>(p, r). r \<noteq> None) ?outs)"
  have lF: "length failedPkgs = ?K" by (simp add: F)
  have "length (filter (\<lambda>(p, r). r = None) ?outs) + ?K = length ?outs"
    by (rule outcome_partition)
  then have lP: "length passedPkgs = length packs - ?K" by (simp add: P len)
  have rep1: "exits_nonzero (fst (testRunCmd_report env passedPkgs failedPkgs s2)) \<longleftrightarrow> 0 < ?K"
    by (simp add: testRunCmd_report_def Let_def lF)
  have rep2: "0 < ?K \<longrightarrow>
      testRunCmd_report env passedPkgs failedPkgs s2 =
        (Some (NewtUsage False (Some (NewtError
           (''Test failure(s):\<newline>Passed tests: ['' @ PackageNameList env passedPkgs @
            '']\<newline>Failed tests: ['' @ PackageNameList env failedPkgs @ '']'')))),
         s2)"
    by (simp add: testRunCmd_report_def Let_def lF)
  have rep3: "?K = 0 \<longrightarrow>
      testRunCmd_report env passedPkgs failedPkgs s2 =
        (None,
         s2\<lparr>events := events s2 @
            [Ev_StatusMessage VERBOSITY_DEFAULT ''%s\<newline>''
               [''Passed tests: ['' @ PackageNameList env passedPkgs @ '']''],
             Ev_StatusMessage VERBOSITY_DEFAULT ''All tests passed\<newline>'' []]\<rparr>)"
    using lF by (simp add: testRunCmd_report_def Let_def StatusMessage_def emit_def)
  have cmd: "\<forall>args s0. testRunCmd_select env args s0 = (Inr packs, s1) \<and> packs \<noteq> [] \<longrightarrow>
      testRunCmd env args s0 = testRunCmd_report env passedPkgs failedPkgs s2"
    using run by (simp add: testRunCmd_def)
  from ev len rc nm P F lF lP rep1 rep2 rep3 cmd show ?thesis
    unfolding Let_def new by blast
qed

theorem testRunCmd_batch_outcome_witness:
  "fst (testRunCmd_cycles (demo_env demo_resolve demo_test)
          [demo_pkg ''core'' ''beta'', demo_pkg ''core'' ''alpha'', demo_pkg ''extra'' ''gamma'']
          [] [] demo_start) =
     Inr ([demo_pkg ''core'' ''beta'', demo_pkg ''extra'' ''gamma''], [demo_pkg ''core'' ''alpha''])
   \<and> test_calls (events (snd (testRunCmd_cycles (demo_env demo_resolve demo_test)
          [demo_pkg ''core'' ''beta'', demo_pkg ''core'' ''alpha'', demo_pkg ''extra'' ''gamma'']
          [] [] demo_start))) =
     [(demo_pkg ''core'' ''beta'', None),
      (demo_pkg ''core'' ''alpha'', Some (NewtError ''alpha: FAIL'')),
      (demo_pkg ''extra'' ''gamma'', None)]
   \<and> testRunCmd_report (demo_env demo_resolve demo_test)
        [demo_pkg ''core'' ''beta'', demo_pkg ''extra'' ''gamma''] [demo_pkg ''core'' ''alpha'']
        (snd (testRunCmd_cycles (demo_env demo_resolve demo_test)
          [demo_pkg ''core'' ''beta'', demo_pkg ''core'' ''alpha'', demo_pkg ''extra'' ''gamma'']
          [] [] demo_start)) =
     (Some (NewtUsage False (Some (NewtError
        ''Test failure(s):\<newline>Passed tests: [beta gamma]\<newline>Failed tests: [alpha]''))),
      snd (testRunCmd_cycles (demo_env demo_resolve demo_test)
          [demo_pkg ''core'' ''beta'', demo_pkg ''core'' ''alpha'', demo_pkg ''extra'' ''gamma'']
          [] [] demo_start))"
proof -
  let ?E = "demo_env demo_resolve demo_test"
  let ?packs = "[demo_pkg ''core'' ''beta'', demo_pkg ''core'' ''alpha'', demo_pkg ''extra'' ''gamma'']"
  let ?s2 = "snd (testRunCmd_cycles ?E ?packs [] [] demo_start)"
  have f: "fst (testRunCmd_cycles ?E ?packs [] [] demo_start) =
     Inr ([demo_pkg ''core'' ''beta'', demo_pkg ''extra'' ''gamma''], [demo_pkg ''core'' ''alpha''])"
    by (simp add: run_defs call_defs demo_simps)
  have tc: "test_calls (events ?s2) =
     [(demo_pkg ''core'' ''beta'', None),
      (demo_pkg ''core'' ''alpha'', Some (NewtError ''alpha: FAIL'')),
      (demo_pkg ''extra'' ''gamma'', None)]"
    by (simp add: run_defs call_defs demo_simps)
  from f have run: "testRunCmd_cycles ?E ?packs [] [] demo_start =
     (Inr ([demo_pkg ''core'' ''beta'', demo_pkg ''extra'' ''gamma''], [demo_pkg ''core'' ''alpha'']),
      ?s2)"
    by (simp add: prod_eq_iff)
  have d: "drop (length (events demo_start)) (events ?s2) = events ?s2"
    by (simp add: demo_start_def)
  have n: "PackageNameList ?E = demo_names" by (simp add: demo_env_sel)
  from testRunCmd_batch_outcome [OF run, unfolded Let_def d tc]
  have "testRunCmd_report ?E
        [demo_pkg ''core'' ''beta'', demo_pkg ''extra'' ''gamma''] [demo_pkg ''core'' ''alpha''] ?s2 =
     (Some (NewtUsage False (Some (NewtError
        ''Test failure(s):\<newline>Passed tests: [beta gamma]\<newline>Failed tests: [alpha]''))), ?s2)"
    by (simp add: n demo_pkg_def del: testRunCmd_cycles.simps)
  with f tc show ?thesis by blast
qed

text \<open>
  C2. When the argument list of the test command holds "all" and the selection is
  reached, the set of selected packages is exactly the set of the packages, over every
  repository of the package list of the project, whose base path followed by
  "/src/test" exists; the project state is the one initialisation left; and the
  selection is the one the single argument "all" gives, and the same for any other
  argument list that holds "all" and reaches the selection: the packages named
  explicitly do not enter it.
\<close>

theorem testRunCmd_all_selection:
  assumes all: "''all'' \<in> set args"
    and sel: "testRunCmd_select env args s0 = (Inr packs, s1)"
  shows "set packs =
           {p. \<exists>r repoHash n. (r, repoHash) \<in> set (PackageList env (world s1)) \<and>
                 (n, LocalPackage p) \<in> set repoHash \<and>
                 NodeExist env (world s1) (BasePath p @ ''/src/test'')}
         \<and> world s1 = snd (Initialize env (world s0))
         \<and> fst (testRunCmd_select env [''all''] s0) = Inr packs
         \<and> (\<forall>args' packs' s1'. ''all'' \<in> set args' \<and>
               testRunCmd_select env args' s0 = (Inr packs', s1') \<longrightarrow> packs' = packs)"
proof -
  from testRunCmd_select_all [OF all sel] obtain w1 where
    init: "Initialize env (world s0) = (None, w1)" and
    run: "testRunCmd_all env w1 (PackageList env w1) [] = Inr packs" and
    s1: "s1 = s0\<lparr>world := w1,
                  events := events s0 @
                    Ev_Initialize # map Ev_ResolvePackage (explicit_names args) @
                    [Ev_PackageList]\<rparr>"
    by blast
  have w: "world s1 = w1" by (simp add: s1)
  have A: "set packs =
           {p. \<exists>r repoHash n. (r, repoHash) \<in> set (PackageList env (world s1)) \<and>
                 (n, LocalPackage p) \<in> set repoHash \<and>
                 NodeExist env (world s1) (BasePath p @ ''/src/test'')}"
    using testRunCmd_all_set [OF run] by (simp add: w pkgIsTestable_def)
  have B: "world s1 = snd (Initialize env (world s0))" by (simp add: w init)
  have C: "fst (testRunCmd_select env [''all''] s0) = Inr packs"
    using init run by (simp add: testRunCmd_select_def do_Initialize_def emit_def Let_def)
  have D: "packs' = packs"
    if "''all'' \<in> set args'" and "testRunCmd_select env args' s0 = (Inr packs', s1')"
    for args' packs' s1'
    using testRunCmd_select_all [OF that] init run by auto
  from A B C D show ?thesis by blast
qed

theorem testRunCmd_all_selection_witness:
  "''all'' \<in> set [''beta'', ''all'']
   \<and> testRunCmd_select (demo_env demo_resolve demo_test) [''beta'', ''all''] demo_start =
       (Inr [demo_pkg ''core'' ''alpha'', demo_pkg ''extra'' ''gamma''],
        \<lparr>world = 0, events = [Ev_Initialize, Ev_ResolvePackage ''beta'', Ev_PackageList]\<rparr>)
   \<and> fst (testRunCmd_select (demo_env demo_resolve demo_test) [''all''] demo_start) =
       Inr [demo_pkg ''core'' ''alpha'', demo_pkg ''extra'' ''gamma'']
   \<and> set [demo_pkg ''core'' ''alpha'', demo_pkg ''extra'' ''gamma''] =
       {p. \<exists>r repoHash n.
             (r, repoHash) \<in> set (PackageList (demo_env demo_resolve demo_test) 0) \<and>
             (n, LocalPackage p) \<in> set repoHash \<and>
             NodeExist (demo_env demo_resolve demo_test) 0 (BasePath p @ ''/src/test'')}"
proof -
  let ?E = "demo_env demo_resolve demo_test"
  let ?s1 = "\<lparr>world = 0, events = [Ev_Initialize, Ev_ResolvePackage ''beta'', Ev_PackageList]\<rparr>
               :: (nat, string, string \<times> nat) state"
  have a: "''all'' \<in> set [''beta'', ''all'']" by simp
  have sel: "testRunCmd_select ?E [''beta'', ''all''] demo_start =
       (Inr [demo_pkg ''core'' ''alpha'', demo_pkg ''extra'' ''gamma''], ?s1)"
    by (simp add: run_defs call_defs demo_simps)
  have w: "world ?s1 = 0" by simp
  note T = testRunCmd_all_selection [OF a sel, unfolded w]
  from T sel a show ?thesis by blast
qed

text \<open>
  C3. A cycle of the test command for a selected package, when none of its steps is
  fatal, makes these calls in this order: the reset of the project state, the
  resolution of the fixed target name "unittest" in the state after the reset, the
  construction of a builder from that target, the progress notice, the resolution of
  the full name recorded for the package in the state after the reset, and the test
  action on the package that this resolution returned. Whatever the later steps do, a
  cycle starts with the reset and the resolution of "unittest". A completed batch has
  one reset, one test action and one recorded outcome for each element of the
  selection, so a package selected twice gets two cycles.
\<close>

theorem testRunCmd_cycle_steps:
  "(\<forall>t b w2 newPack err w3.
      ResolveTarget env (ResetProject env (world s)) ''unittest'' = Some t \<and>
      NewBuilder env (ResetProject env (world s)) t = (Inr b, w2) \<and>
      ResolvePackage env w2 (FullName pack) = Inr newPack \<and>
      Test env w2 b newPack = (err, w3) \<longrightarrow>
      testRunCmd_cycle env pack s =
        (Inr (newPack, err),
         s\<lparr>world := w3,
           events := events s @
             [Ev_ResetProject, Ev_ResolveTarget TARGET_TEST_NAME, Ev_NewBuilder t,
              Ev_StatusMessage VERBOSITY_DEFAULT ''Testing package %s\<newline>'' [FullName pack],
              Ev_ResolvePackage (FullName pack), Ev_Test b newPack err]\<rparr>))
   \<and> TARGET_TEST_NAME = ''unittest''
   \<and> (\<exists>more. events (snd (testRunCmd_cycle env pack s)) =
                 events s @ Ev_ResetProject # Ev_ResolveTarget ''unittest'' # more)
   \<and> (\<forall>packs P F s'. testRunCmd_cycles env packs [] [] s = (Inr (P, F), s') \<longrightarrow>
        (\<exists>new. events s' = events s @ new \<and>
           length (filter (\<lambda>e. e = Ev_ResetProject) new) = length packs \<and>
           length (test_calls new) = length packs \<and>
           length P + length F = length packs))"
proof -
  have A: "\<forall>t b w2 newPack err w3.
      ResolveTarget env (ResetProject env (world s)) ''unittest'' = Some t \<and>
      NewBuilder env (ResetProject env (world s)) t = (Inr b, w2) \<and>
      ResolvePackage env w2 (FullName pack) = Inr newPack \<and>
      Test env w2 b newPack = (err, w3) \<longrightarrow>
      testRunCmd_cycle env pack s =
        (Inr (newPack, err),
         s\<lparr>world := w3,
           events := events s @
             [Ev_ResetProject, Ev_ResolveTarget TARGET_TEST_NAME, Ev_NewBuilder t,
              Ev_StatusMessage VERBOSITY_DEFAULT ''Testing package %s\<newline>'' [FullName pack],
              Ev_ResolvePackage (FullName pack), Ev_Test b newPack err]\<rparr>)"
    by (simp add: testRunCmd_cycle_complete TARGET_TEST_NAME_def)
  have D: "\<exists>new. events s' = events s @ new \<and>
           length (filter (\<lambda>e. e = Ev_ResetProject) new) = length packs \<and>
           length (test_calls new) = length packs \<and>
           length P + length F = length packs"
    if run: "testRunCmd_cycles env packs [] [] s = (Inr (P, F), s')" for packs P F s'
  proof -
    from testRunCmd_cycles_trace [OF run] obtain new where
      ev: "events s' = events s @ new" and
      rs: "length (filter (\<lambda>e. e = Ev_ResetProject) new) = length packs" and
      len: "length (test_calls new) = length packs" and
      P: "P = map fst (filter (\<lambda>(p, r). r = None) (test_calls new))" and
      F: "F = map fst (filter (\<lambda>(p, r). r \<noteq> None) (test_calls new))"
      by auto
    have "length P + length F = length (test_calls new)"
      using outcome_partition [of "test_calls new"] by (simp add: P F)
    with ev rs len show ?thesis by auto
  qed
  from A testRunCmd_cycle_starts [of env pack s] D show ?thesis
    by (simp add: TARGET_TEST_NAME_def)
qed

theorem testRunCmd_cycle_steps_witness:
  "ResolveTarget (demo_env demo_resolve demo_test_flaky)
       (ResetProject (demo_env demo_resolve demo_test_flaky) (world demo_start)) ''unittest'' =
     Some ''unittest''
   \<and> NewBuilder (demo_env demo_resolve demo_test_flaky)
       (ResetProject (demo_env demo_resolve demo_test_flaky) (world demo_start)) ''unittest'' =
     (Inr (''unittest'', 1), 1)
   \<and> ResolvePackage (demo_env demo_resolve demo_test_flaky) 1
       (FullName \<lparr>BasePath = ''stale'', FullName = ''core/alpha'', Name = ''alpha''\<rparr>) =
     Inr (demo_pkg ''core'' ''alpha'')
   \<and> Test (demo_env demo_resolve demo_test_flaky) 1 (''unittest'', 1) (demo_pkg ''core'' ''alpha'') =
     (Some (NewtError ''FAIL''), 1)
   \<and> testRunCmd_cycle (demo_env demo_resolve demo_test_flaky)
       \<lparr>BasePath = ''stale'', FullName = ''core/alpha'', Name = ''alpha''\<rparr> demo_start =
     (Inr (\<lparr>BasePath = ''core/alpha'', FullName = ''core/alpha'', Name = ''alpha''\<rparr>,
           Some (NewtError ''FAIL'')),
      \<lparr>world = 1,
       events =
         [Ev_ResetProject, Ev_ResolveTarget ''unittest'', Ev_NewBuilder ''unittest'',
          Ev_StatusMessage VERBOSITY_DEFAULT ''Testing package %s\<newline>'' [''core/alpha''],
          Ev_ResolvePackage ''core/alpha'',
          Ev_Test (''unittest'', 1)
            \<lparr>BasePath = ''core/alpha'', FullName = ''core/alpha'', Name = ''alpha''\<rparr>
            (Some (NewtError ''FAIL''))]\<rparr>)
   \<and> fst (testRunCmd_cycles (demo_env demo_resolve demo_test_flaky)
        [demo_pkg ''core'' ''alpha'', demo_pkg ''core'' ''alpha''] [] [] demo_start) =
     Inr ([demo_pkg ''core'' ''alpha''], [demo_pkg ''core'' ''alpha''])
   \<and> (\<exists>new. events (snd (testRunCmd_cycles (demo_env demo_resolve demo_test_flaky)
                 [demo_pkg ''core'' ''alpha'', demo_pkg ''core'' ''alpha''] [] [] demo_start)) =
               events demo_start @ new \<and>
             length (filter (\<lambda>e. e = Ev_ResetProject) new) = 2 \<and>
             length (test_calls new) = 2)"
proof -
  let ?E = "demo_env demo_resolve demo_test_flaky"
  let ?stale = "\<lparr>BasePath = ''stale'', FullName = ''core/alpha'', Name = ''alpha''\<rparr>"
  let ?two = "[demo_pkg ''core'' ''alpha'', demo_pkg ''core'' ''alpha'']"
  have h1: "ResolveTarget ?E (ResetProject ?E (world demo_start)) ''unittest'' = Some ''unittest''"
    by (simp add: demo_simps)
  have h2: "NewBuilder ?E (ResetProject ?E (world demo_start)) ''unittest'' =
      (Inr (''unittest'', 1), 1)"
    by (simp add: demo_simps)
  have h3: "ResolvePackage ?E 1 (FullName ?stale) = Inr (demo_pkg ''core'' ''alpha'')"
    by (simp add: demo_simps)
  have h4: "Test ?E 1 (''unittest'', 1) (demo_pkg ''core'' ''alpha'') = (Some (NewtError ''FAIL''), 1)"
    by (simp add: demo_simps)
  note T = testRunCmd_cycle_steps [of ?E demo_start ?stale]
  from T h1 h2 h3 h4 have "testRunCmd_cycle ?E ?stale demo_start =
        (Inr (demo_pkg ''core'' ''alpha'', Some (NewtError ''FAIL'')),
         demo_start\<lparr>world := 1,
           events := events demo_start @
             [Ev_ResetProject, Ev_ResolveTarget TARGET_TEST_NAME, Ev_NewBuilder ''unittest'',
              Ev_StatusMessage VERBOSITY_DEFAULT ''Testing package %s\<newline>'' [FullName ?stale],
              Ev_ResolvePackage (FullName ?stale),
              Ev_Test (''unittest'', 1) (demo_pkg ''core'' ''alpha'') (Some (NewtError ''FAIL''))]\<rparr>)"
    by blast
  then have A: "testRunCmd_cycle ?E ?stale demo_start =
     (Inr (\<lparr>BasePath = ''core/alpha'', FullName = ''core/alpha'', Name = ''alpha''\<rparr>,
           Some (NewtError ''FAIL'')),
      \<lparr>world = 1,
       events =
         [Ev_ResetProject, Ev_ResolveTarget ''unittest'', Ev_NewBuilder ''unittest'',
          Ev_StatusMessage VERBOSITY_DEFAULT ''Testing package %s\<newline>'' [''core/alpha''],
          Ev_ResolvePackage ''core/alpha'',
          Ev_Test (''unittest'', 1)
            \<lparr>BasePath = ''core/alpha'', FullName = ''core/alpha'', Name = ''alpha''\<rparr>
            (Some (NewtError ''FAIL''))]\<rparr>)"
    by (simp add: demo_start_def demo_pkg_def TARGET_TEST_NAME_def)
  have f: "fst (testRunCmd_cycles ?E ?two [] [] demo_start) =
     Inr ([demo_pkg ''core'' ''alpha''], [demo_pkg ''core'' ''alpha''])"
    by (simp add: run_defs call_defs demo_simps)
  then have run: "testRunCmd_cycles ?E ?two [] [] demo_start =
     (Inr ([demo_pkg ''core'' ''alpha''], [demo_pkg ''core'' ''alpha'']),
      snd (testRunCmd_cycles ?E ?two [] [] demo_start))"
    by (simp add: prod_eq_iff)
  from T run have "\<exists>new. events (snd (testRunCmd_cycles ?E ?two [] [] demo_start)) =
               events demo_start @ new \<and>
             length (filter (\<lambda>e. e = Ev_ResetProject) new) = length ?two \<and>
             length (test_calls new) = length ?two \<and>
             length [demo_pkg ''core'' ''alpha''] + length [demo_pkg ''core'' ''alpha''] = length ?two"
    by blast
  then have B: "\<exists>new. events (snd (testRunCmd_cycles ?E ?two [] [] demo_start)) =
               events demo_start @ new \<and>
             length (filter (\<lambda>e. e = Ev_ResetProject) new) = 2 \<and>
             length (test_calls new) = 2"
    by (simp del: testRunCmd_cycles.simps add: numeral_2_eq_2)
  from h1 h2 h3 h4 A f B show ?thesis by blast
qed

text \<open>
  C4, as amended. When the test action of a selected package returns a non-nil error
  of the structured type, a \<^verbatim>\<open>*util.NewtError\<close> that points to a structure, the batch is
  not aborted: the text of the error is printed at once at the quiet level, the package
  is appended to the failed list, and the loop goes on with the rest of the selection,
  whose first cycle starts right after the printed text.
\<close>

theorem testRunCmd_structured_failure_continues:
  assumes pre: "testRunCmd_cycles env pre [] [] s1 = (Inr (passedPkgs, failedPkgs), s)"
    and tgt: "ResolveTarget env (ResetProject env (world s)) ''unittest'' = Some t"
    and bld: "NewBuilder env (ResetProject env (world s)) t = (Inr b, w2)"
    and res: "ResolvePackage env w2 (FullName pack) = Inr newPack"
    and tst: "Test env w2 b newPack = (Some (NewtError msg), w3)"
  shows "let s' = s\<lparr>world := w3,
                     events := events s @
                       [Ev_ResetProject, Ev_ResolveTarget ''unittest'', Ev_NewBuilder t,
                        Ev_StatusMessage VERBOSITY_DEFAULT ''Testing package %s\<newline>''
                          [FullName pack],
                        Ev_ResolvePackage (FullName pack),
                        Ev_Test b newPack (Some (NewtError msg)),
                        Ev_StatusMessage VERBOSITY_QUIET msg []]\<rparr>
         in testRunCmd_cycles env (pre @ pack # rest) [] [] s1 =
              testRunCmd_cycles env rest passedPkgs (failedPkgs @ [newPack]) s'
          \<and> (\<forall>nxt rest'. rest = nxt # rest' \<longrightarrow>
               (\<exists>more. events (snd (testRunCmd_cycles env (pre @ pack # rest) [] [] s1)) =
                  events s' @ Ev_ResetProject # Ev_ResolveTarget ''unittest'' # more))"
proof -
  let ?s' = "s\<lparr>world := w3,
                     events := events s @
                       [Ev_ResetProject, Ev_ResolveTarget ''unittest'', Ev_NewBuilder t,
                        Ev_StatusMessage VERBOSITY_DEFAULT ''Testing package %s\<newline>''
                          [FullName pack],
                        Ev_ResolvePackage (FullName pack),
                        Ev_Test b newPack (Some (NewtError msg)),
                        Ev_StatusMessage VERBOSITY_QUIET msg []]\<rparr>"
  have A: "testRunCmd_cycles env (pre @ pack # rest) [] [] s1 =
              testRunCmd_cycles env rest passedPkgs (failedPkgs @ [newPack]) ?s'"
    using pre testRunCmd_cycle_complete [OF tgt bld res tst]
    by (simp add: testRunCmd_cycles_append StatusMessage_def emit_def)
  have mono: "\<exists>more. events (snd (testRunCmd_cycles env ps P F st)) = events st @ more"
    for ps P F and st :: "('a, 'b, 'c) state"
  proof (induction ps arbitrary: P F st)
    case Nil
    then show ?case by simp
  next
    case (Cons p ps)
    obtain c st1 where cyc: "testRunCmd_cycle env p st = (c, st1)"
      by (cases "testRunCmd_cycle env p st")
    from testRunCmd_cycle_starts [of env p st] cyc obtain m1 where
      m1: "events st1 = events st @ m1" by auto
    show ?case
    proof (cases c)
      case (Inl a)
      with cyc m1 show ?thesis by simp
    next
      case (Inr pr)
      obtain np err where pr: "pr = (np, err)" by (cases pr)
      show ?thesis
      proof (cases err)
        case None
        from Cons.IH [of "P @ [np]" F st1] cyc Inr pr None m1 show ?thesis by auto
      next
        case (Some e)
        show ?thesis
        proof (cases e)
          case (ForeignError m)
          with cyc Inr pr Some m1 show ?thesis by simp
        next
          case NilNewtError
          with cyc Inr pr Some m1 show ?thesis by simp
        next
          case (NewtError m)
          from Cons.IH [of P "F @ [np]" "StatusMessage VERBOSITY_QUIET m [] st1"]
            cyc Inr pr Some NewtError m1
          show ?thesis by (auto simp add: StatusMessage_def emit_def)
        qed
      qed
    qed
  qed
  have B: "\<exists>more. events (snd (testRunCmd_cycles env (pre @ pack # rest) [] [] s1)) =
                  events ?s' @ Ev_ResetProject # Ev_ResolveTarget ''unittest'' # more"
    if rest: "rest = nxt # rest'" for nxt rest'
  proof -
    obtain c st1 where cyc: "testRunCmd_cycle env nxt ?s' = (c, st1)"
      by (cases "testRunCmd_cycle env nxt ?s'")
    from testRunCmd_cycle_starts [of env nxt ?s'] cyc obtain m1 where
      m1: "events st1 = events ?s' @ Ev_ResetProject # Ev_ResolveTarget ''unittest'' # m1"
      by auto
    have "\<exists>m2. events (snd (testRunCmd_cycles env (nxt # rest') passedPkgs
                   (failedPkgs @ [newPack]) ?s')) = events st1 @ m2"
    proof (cases c)
      case (Inl a)
      with cyc show ?thesis by simp
    next
      case (Inr pr)
      obtain np err where pr: "pr = (np, err)" by (cases pr)
      show ?thesis
      proof (cases err)
        case None
        from mono [of rest' "passedPkgs @ [np]" "failedPkgs @ [newPack]" st1] cyc Inr pr None
        show ?thesis by simp
      next
        case (Some e)
        show ?thesis
        proof (cases e)
          case (ForeignError m)
          with cyc Inr pr Some show ?thesis by simp
        next
          case NilNewtError
          with cyc Inr pr Some show ?thesis by simp
        next
          case (NewtError m)
          from mono [of rest' passedPkgs "(failedPkgs @ [newPack]) @ [np]"
              "StatusMessage VERBOSITY_QUIET m [] st1"] cyc Inr pr Some NewtError
          show ?thesis by (auto simp add: StatusMessage_def emit_def)
        qed
      qed
    qed
    with m1 A rest show ?thesis by auto
  qed
  from A B show ?thesis unfolding Let_def by blast
qed

theorem testRunCmd_structured_failure_continues_witness:
  "fst (testRunCmd_cycles (demo_env demo_resolve demo_test) [demo_pkg ''core'' ''beta''] [] []
          demo_start) = Inr ([demo_pkg ''core'' ''beta''], [])
   \<and> Test (demo_env demo_resolve demo_test) 2 (''unittest'', 2) (demo_pkg ''core'' ''alpha'') =
       (Some (NewtError ''alpha: FAIL''), 2)
   \<and> testRunCmd_cycles (demo_env demo_resolve demo_test)
        ([demo_pkg ''core'' ''beta''] @ demo_pkg ''core'' ''alpha'' # [demo_pkg ''extra'' ''gamma''])
        [] [] demo_start =
      testRunCmd_cycles (demo_env demo_resolve demo_test) [demo_pkg ''extra'' ''gamma'']
        [demo_pkg ''core'' ''beta''] [demo_pkg ''core'' ''alpha'']
        \<lparr>world = 2,
         events =
           [Ev_ResetProject, Ev_ResolveTarget ''unittest'', Ev_NewBuilder ''unittest'',
            Ev_StatusMessage VERBOSITY_DEFAULT ''Testing package %s\<newline>'' [''core/beta''],
            Ev_ResolvePackage ''core/beta'',
            Ev_Test (''unittest'', 1) (demo_pkg ''core'' ''beta'') None,
            Ev_ResetProject, Ev_ResolveTarget ''unittest'', Ev_NewBuilder ''unittest'',
            Ev_StatusMessage VERBOSITY_DEFAULT ''Testing package %s\<newline>'' [''core/alpha''],
            Ev_ResolvePackage ''core/alpha'',
            Ev_Test (''unittest'', 2) (demo_pkg ''core'' ''alpha'')
              (Some (NewtError ''alpha: FAIL'')),
            Ev_StatusMessage VERBOSITY_QUIET ''alpha: FAIL'' []]\<rparr>
   \<and> fst (testRunCmd_cycles (demo_env demo_resolve demo_test)
        ([demo_pkg ''core'' ''beta''] @ demo_pkg ''core'' ''alpha'' # [demo_pkg ''extra'' ''gamma''])
        [] [] demo_start) =
      Inr ([demo_pkg ''core'' ''beta'', demo_pkg ''extra'' ''gamma''], [demo_pkg ''core'' ''alpha''])"
proof -
  let ?E = "demo_env demo_resolve demo_test"
  let ?s = "\<lparr>world = 1,
       events = [Ev_ResetProject, Ev_ResolveTarget ''unittest'', Ev_NewBuilder ''unittest'',
            Ev_StatusMessage VERBOSITY_DEFAULT ''Testing package %s\<newline>'' [''core/beta''],
            Ev_ResolvePackage ''core/beta'',
            Ev_Test (''unittest'', 1) (demo_pkg ''core'' ''beta'') None]\<rparr>
       :: (nat, string, string \<times> nat) state"
  have pre: "testRunCmd_cycles ?E [demo_pkg ''core'' ''beta''] [] [] demo_start =
      (Inr ([demo_pkg ''core'' ''beta''], []), ?s)"
    by (simp add: run_defs call_defs demo_simps)
  have tgt: "ResolveTarget ?E (ResetProject ?E (world ?s)) ''unittest'' = Some ''unittest''"
    by (simp add: demo_simps)
  have bld: "NewBuilder ?E (ResetProject ?E (world ?s)) ''unittest'' = (Inr (''unittest'', 2), 2)"
    by (simp add: demo_simps)
  have res: "ResolvePackage ?E 2 (FullName (demo_pkg ''core'' ''alpha'')) =
      Inr (demo_pkg ''core'' ''alpha'')"
    by (simp add: demo_simps)
  have tst: "Test ?E 2 (''unittest'', 2) (demo_pkg ''core'' ''alpha'') =
      (Some (NewtError ''alpha: FAIL''), 2)"
    by (simp add: demo_simps)
  note T = testRunCmd_structured_failure_continues [OF pre tgt bld res tst,
      of "[demo_pkg ''extra'' ''gamma'']", unfolded Let_def, THEN conjunct1]
  from T have A: "testRunCmd_cycles ?E
        ([demo_pkg ''core'' ''beta''] @ demo_pkg ''core'' ''alpha'' # [demo_pkg ''extra'' ''gamma''])
        [] [] demo_start =
      testRunCmd_cycles ?E [demo_pkg ''extra'' ''gamma'']
        [demo_pkg ''core'' ''beta''] [demo_pkg ''core'' ''alpha'']
        \<lparr>world = 2,
         events =
           [Ev_ResetProject, Ev_ResolveTarget ''unittest'', Ev_NewBuilder ''unittest'',
            Ev_StatusMessage VERBOSITY_DEFAULT ''Testing package %s\<newline>'' [''core/beta''],
            Ev_ResolvePackage ''core/beta'',
            Ev_Test (''unittest'', 1) (demo_pkg ''core'' ''beta'') None,
            Ev_ResetProject, Ev_ResolveTarget ''unittest'', Ev_NewBuilder ''unittest'',
            Ev_StatusMessage VERBOSITY_DEFAULT ''Testing package %s\<newline>'' [''core/alpha''],
            Ev_ResolvePackage ''core/alpha'',
            Ev_Test (''unittest'', 2) (demo_pkg ''core'' ''alpha'')
              (Some (NewtError ''alpha: FAIL'')),
            Ev_StatusMessage VERBOSITY_QUIET ''alpha: FAIL'' []]\<rparr>"
    by (simp add: demo_pkg_def del: testRunCmd_cycles.simps)
  have f: "fst (testRunCmd_cycles ?E
        ([demo_pkg ''core'' ''beta''] @ demo_pkg ''core'' ''alpha'' # [demo_pkg ''extra'' ''gamma''])
        [] [] demo_start) =
      Inr ([demo_pkg ''core'' ''beta'', demo_pkg ''extra'' ''gamma''], [demo_pkg ''core'' ''alpha''])"
    by (simp add: run_defs call_defs demo_simps)
  from pre have p: "fst (testRunCmd_cycles ?E [demo_pkg ''core'' ''beta''] [] [] demo_start) =
      Inr ([demo_pkg ''core'' ''beta''], [])"
    by (simp del: testRunCmd_cycles.simps)
  from p tst A f show ?thesis by blast
qed

text \<open>
  C4 as first stated, for every error, fails: when the test action returns an
  error of another dynamic type the command panics at once; nothing is printed, no
  failed list is reported and the next package gets no cycle. (The nil pointer of the
  structured type stops the command too, one line later.)
\<close>

theorem testRunCmd_any_error_continues_counterexample:
  "Test (demo_env demo_resolve demo_test_foreign) 1 (''unittest'', 1)
       (demo_pkg ''core'' ''alpha'') =
     (Some (ForeignError ''exit status 1''), 1)
   \<and> testRunCmd (demo_env demo_resolve demo_test_foreign) [''alpha'', ''beta''] demo_start =
       (Some Panic,
        \<lparr>world = 1,
         events =
           [Ev_Initialize, Ev_ResolvePackage ''alpha'', Ev_ResolvePackage ''beta'',
            Ev_ResetProject, Ev_ResolveTarget ''unittest'', Ev_NewBuilder ''unittest'',
            Ev_StatusMessage VERBOSITY_DEFAULT ''Testing package %s\<newline>'' [''core/alpha''],
            Ev_ResolvePackage ''core/alpha'',
            Ev_Test (''unittest'', 1) (demo_pkg ''core'' ''alpha'')
              (Some (ForeignError ''exit status 1''))]\<rparr>)"
  by (simp add: run_defs call_defs demo_simps)

text \<open>
  C6. In a cycle that reaches the second resolution of the package, after the cycles
  before it have completed, a resolver error ends the whole run in the exit
  \<open>NewtUsage\<close> with the text "Failed to resolve package: " followed by the name of
  the package; the error of the resolver is not part of the result, and no test action
  follows.
\<close>

theorem testRunCmd_reresolve_fatal:
  assumes sel: "testRunCmd_select env args s0 = (Inr (pre @ pack # rest), s1)"
    and pre: "testRunCmd_cycles env pre [] [] s1 = (Inr (passedPkgs, failedPkgs), s)"
    and tgt: "ResolveTarget env (ResetProject env (world s)) ''unittest'' = Some t"
    and bld: "NewBuilder env (ResetProject env (world s)) t = (Inr b, w2)"
    and res: "ResolvePackage env w2 (FullName pack) = Inl err"
  shows "testRunCmd env args s0 =
     (Some (NewtUsage False (Some (NewtError (''Failed to resolve package: '' @ Name pack)))),
      s\<lparr>world := w2,
        events := events s @
          [Ev_ResetProject, Ev_ResolveTarget ''unittest'', Ev_NewBuilder t,
           Ev_StatusMessage VERBOSITY_DEFAULT ''Testing package %s\<newline>'' [FullName pack],
           Ev_ResolvePackage (FullName pack)]\<rparr>)"
  using sel pre testRunCmd_cycle_unresolved [OF tgt bld res]
  by (simp add: testRunCmd_def testRunCmd_cycles_append)

theorem testRunCmd_reresolve_fatal_witness:
  "testRunCmd_select (demo_env (demo_resolve_until 2) demo_test) [''beta'', ''gamma''] demo_start =
     (Inr ([demo_pkg ''core'' ''beta''] @ demo_pkg ''extra'' ''gamma'' # []),
      \<lparr>world = 0,
       events = [Ev_Initialize, Ev_ResolvePackage ''beta'', Ev_ResolvePackage ''gamma'']\<rparr>)
   \<and> fst (testRunCmd_cycles (demo_env (demo_resolve_until 2) demo_test)
            [demo_pkg ''core'' ''beta''] [] []
            \<lparr>world = 0,
             events = [Ev_Initialize, Ev_ResolvePackage ''beta'', Ev_ResolvePackage ''gamma'']\<rparr>) =
       Inr ([demo_pkg ''core'' ''beta''], [])
   \<and> ResolvePackage (demo_env (demo_resolve_until 2) demo_test) 2
         (FullName (demo_pkg ''extra'' ''gamma'')) =
       Inl (NewtError ''project not loaded'')
   \<and> testRunCmd (demo_env (demo_resolve_until 2) demo_test) [''beta'', ''gamma''] demo_start =
       (Some (NewtUsage False (Some (NewtError ''Failed to resolve package: gamma''))),
        \<lparr>world = 2,
         events =
           [Ev_Initialize, Ev_ResolvePackage ''beta'', Ev_ResolvePackage ''gamma'',
            Ev_ResetProject, Ev_ResolveTarget ''unittest'', Ev_NewBuilder ''unittest'',
            Ev_StatusMessage VERBOSITY_DEFAULT ''Testing package %s\<newline>'' [''core/beta''],
            Ev_ResolvePackage ''core/beta'',
            Ev_Test (''unittest'', 1) (demo_pkg ''core'' ''beta'') None,
            Ev_ResetProject, Ev_ResolveTarget ''unittest'', Ev_NewBuilder ''unittest'',
            Ev_StatusMessage VERBOSITY_DEFAULT ''Testing package %s\<newline>'' [''extra/gamma''],
            Ev_ResolvePackage ''extra/gamma'']\<rparr>)"
proof -
  let ?E = "demo_env (demo_resolve_until 2) demo_test"
  let ?s1 = "\<lparr>world = 0,
       events = [Ev_Initialize, Ev_ResolvePackage ''beta'', Ev_ResolvePackage ''gamma'']\<rparr>
       :: (nat, string, string \<times> nat) state"
  let ?s = "\<lparr>world = 1,
       events = [Ev_Initialize, Ev_ResolvePackage ''beta'', Ev_ResolvePackage ''gamma'',
            Ev_ResetProject, Ev_ResolveTarget ''unittest'', Ev_NewBuilder ''unittest'',
            Ev_StatusMessage VERBOSITY_DEFAULT ''Testing package %s\<newline>'' [''core/beta''],
            Ev_ResolvePackage ''core/beta'',
            Ev_Test (''unittest'', 1) (demo_pkg ''core'' ''beta'') None]\<rparr>
       :: (nat, string, string \<times> nat) state"
  have sel: "testRunCmd_select ?E [''beta'', ''gamma''] demo_start =
     (Inr ([demo_pkg ''core'' ''beta''] @ demo_pkg ''extra'' ''gamma'' # []), ?s1)"
    by (simp add: run_defs call_defs demo_simps)
  have pre: "testRunCmd_cycles ?E [demo_pkg ''core'' ''beta''] [] [] ?s1 =
      (Inr ([demo_pkg ''core'' ''beta''], []), ?s)"
    by (simp add: run_defs call_defs demo_simps)
  have tgt: "ResolveTarget ?E (ResetProject ?E (world ?s)) ''unittest'' = Some ''unittest''"
    by (simp add: demo_simps)
  have bld: "NewBuilder ?E (ResetProject ?E (world ?s)) ''unittest'' = (Inr (''unittest'', 2), 2)"
    by (simp add: demo_simps)
  have res: "ResolvePackage ?E 2 (FullName (demo_pkg ''extra'' ''gamma'')) =
      Inl (NewtError ''project not loaded'')"
    by (simp add: demo_simps)
  from testRunCmd_reresolve_fatal [OF sel pre tgt bld res]
  have "testRunCmd ?E [''beta'', ''gamma''] demo_start =
       (Some (NewtUsage False (Some (NewtError ''Failed to resolve package: gamma''))),
        \<lparr>world = 2,
         events =
           [Ev_Initialize, Ev_ResolvePackage ''beta'', Ev_ResolvePackage ''gamma'',
            Ev_ResetProject, Ev_ResolveTarget ''unittest'', Ev_NewBuilder ''unittest'',
            Ev_StatusMessage VERBOSITY_DEFAULT ''Testing package %s\<newline>'' [''core/beta''],
            Ev_ResolvePackage ''core/beta'',
            Ev_Test (''unittest'', 1) (demo_pkg ''core'' ''beta'') None,
            Ev_ResetProject, Ev_ResolveTarget ''unittest'', Ev_NewBuilder ''unittest'',
            Ev_StatusMessage VERBOSITY_DEFAULT ''Testing package %s\<newline>'' [''extra/gamma''],
            Ev_ResolvePackage ''extra/gamma'']\<rparr>)"
    by (simp add: demo_pkg_def)
  with sel pre res show ?thesis by simp
qed

text \<open>
  C7. When the selection of the test command is empty, the command ends in the exit
  \<open>NewtUsage\<close> with the text "No testable packages found" in the state the selection
  left. The argument list then holds "all", and the trace holds the initialisation,
  the resolution of the explicit names and the reading of the package list only: no
  reset, no builder, no test action.
\<close>

theorem testRunCmd_empty_selection:
  assumes sel: "testRunCmd_select env args s0 = (Inr [], s1)"
  shows "testRunCmd env args s0 =
           (Some (NewtUsage False (Some (NewtError ''No testable packages found''))), s1)
         \<and> ''all'' \<in> set args
         \<and> events s1 = events s0 @
             Ev_Initialize # map Ev_ResolvePackage (explicit_names args) @ [Ev_PackageList]"
proof -
  have all: "''all'' \<in> set args"
  proof (rule ccontr)
    assume no: "''all'' \<notin> set args"
    obtain ierr w1 where init: "Initialize env (world s0) = (ierr, w1)"
      by (cases "Initialize env (world s0)")
    let ?s1 = "emit Ev_Initialize (s0\<lparr>world := w1\<rparr>)"
    from sel init have ok: "ierr = None"
      by (cases ierr) (simp_all add: testRunCmd_select_def do_Initialize_def)
    from sel init ok have ne: "args \<noteq> []"
      by (auto simp add: testRunCmd_select_def do_Initialize_def)
    obtain r s2 where res: "testRunCmd_resolve env args False [] ?s1 = (r, s2)"
      by (cases "testRunCmd_resolve env args False [] ?s1")
    from sel init ok ne res obtain ta ps where r: "r = Inr (ta, ps)"
      by (cases r) (auto simp add: testRunCmd_select_def do_Initialize_def)
    from res r have "\<forall>a\<in>set args. a \<noteq> ''all'' \<longrightarrow> \<not> isl (ResolvePackage env (world ?s1) a)"
      by (intro testRunCmd_resolve_Inr) simp
    from testRunCmd_resolve_ok [OF this, of False "[]"] res r no
    have ta: "\<not> ta" and ps: "length ps = length (explicit_names args)"
      by auto
    from no have "explicit_names args = args" by (simp add: explicit_names_def filter_id_conv) metis
    with ps ne have "ps \<noteq> []" by auto
    with sel init ok ne res r ta show False
      by (simp add: testRunCmd_select_def do_Initialize_def)
  qed
  from testRunCmd_select_all [OF all sel] sel all show ?thesis
    by (auto simp add: testRunCmd_def NewNewtError_def)
qed

theorem testRunCmd_empty_selection_witness:
  "testRunCmd_select ((demo_env demo_resolve demo_test)\<lparr>NodeExist := \<lambda>w p. False\<rparr>)
       [''all''] demo_start =
     (Inr [], \<lparr>world = 0, events = [Ev_Initialize, Ev_PackageList]\<rparr>)
   \<and> testRunCmd ((demo_env demo_resolve demo_test)\<lparr>NodeExist := \<lambda>w p. False\<rparr>)
       [''all''] demo_start =
     (Some (NewtUsage False (Some (NewtError ''No testable packages found''))),
      \<lparr>world = 0, events = [Ev_Initialize, Ev_PackageList]\<rparr>)"
proof -
  let ?E = "(demo_env demo_resolve demo_test)\<lparr>NodeExist := \<lambda>w p. False\<rparr>"
  have sel: "testRunCmd_select ?E [''all''] demo_start =
     (Inr [], \<lparr>world = 0, events = [Ev_Initialize, Ev_PackageList]\<rparr>)"
    by (simp add: run_defs call_defs demo_simps)
  from testRunCmd_empty_selection [OF sel] sel show ?thesis by blast
qed

text \<open>
  C9. When the test action of a cycle returns an error that is not of the dynamic type
  \<^verbatim>\<open>*util.NewtError\<close>, the classification is a failed type assertion: the command ends
  in the panic of that assertion, \<open>Panic\<close>, right after that test action. Conversely
  the loop ends in this panic only then: it is always preceded directly by a test
  action that returned such an error. (A nil pointer of the structured type passes the
  assertion; the stop it causes one line later is the other panic, \<open>NilPanic\<close>.)
\<close>

theorem testRunCmd_foreign_error_panics:
  "(\<forall>args s0 pre rest s1 passedPkgs failedPkgs t b w2 newPack m w3.
      testRunCmd_select env args s0 = (Inr (pre @ pack # rest), s1) \<and>
      testRunCmd_cycles env pre [] [] s1 = (Inr (passedPkgs, failedPkgs), s) \<and>
      ResolveTarget env (ResetProject env (world s)) ''unittest'' = Some t \<and>
      NewBuilder env (ResetProject env (world s)) t = (Inr b, w2) \<and>
      ResolvePackage env w2 (FullName pack) = Inr newPack \<and>
      Test env w2 b newPack = (Some (ForeignError m), w3) \<longrightarrow>
      testRunCmd env args s0 =
        (Some Panic,
         s\<lparr>world := w3,
           events := events s @
             [Ev_ResetProject, Ev_ResolveTarget ''unittest'', Ev_NewBuilder t,
              Ev_StatusMessage VERBOSITY_DEFAULT ''Testing package %s\<newline>'' [FullName pack],
              Ev_ResolvePackage (FullName pack),
              Ev_Test b newPack (Some (ForeignError m))]\<rparr>))
   \<and> (\<forall>packs passedPkgs failedPkgs.
        fst (testRunCmd_cycles env packs passedPkgs failedPkgs s) = Inl Panic \<longrightarrow>
        (\<exists>evs b p m. events (snd (testRunCmd_cycles env packs passedPkgs failedPkgs s)) =
           evs @ [Ev_Test b p (Some (ForeignError m))]))"
proof -
  have A: "testRunCmd env args s0 =
        (Some Panic,
         s\<lparr>world := w3,
           events := events s @
             [Ev_ResetProject, Ev_ResolveTarget ''unittest'', Ev_NewBuilder t,
              Ev_StatusMessage VERBOSITY_DEFAULT ''Testing package %s\<newline>'' [FullName pack],
              Ev_ResolvePackage (FullName pack),
              Ev_Test b newPack (Some (ForeignError m))]\<rparr>)"
    if sel: "testRunCmd_select env args s0 = (Inr (pre @ pack # rest), s1)"
      and pre: "testRunCmd_cycles env pre [] [] s1 = (Inr (passedPkgs, failedPkgs), s)"
      and tgt: "ResolveTarget env (ResetProject env (world s)) ''unittest'' = Some t"
      and bld: "NewBuilder env (ResetProject env (world s)) t = (Inr b, w2)"
      and res: "ResolvePackage env w2 (FullName pack) = Inr newPack"
      and tst: "Test env w2 b newPack = (Some (ForeignError m), w3)"
    for args s0 pre rest s1 passedPkgs failedPkgs t b w2 newPack m w3
    using sel pre testRunCmd_cycle_complete [OF tgt bld res tst]
    by (simp add: testRunCmd_def testRunCmd_cycles_append)
  from A testRunCmd_cycles_panic [of env _ _ _ s] show ?thesis by blast
qed

theorem testRunCmd_foreign_error_panics_witness:
  "testRunCmd_select (demo_env demo_resolve demo_test_foreign) [''beta'', ''alpha''] demo_start =
     (Inr ([demo_pkg ''core'' ''beta''] @ demo_pkg ''core'' ''alpha'' # []),
      \<lparr>world = 0,
       events = [Ev_Initialize, Ev_ResolvePackage ''beta'', Ev_ResolvePackage ''alpha'']\<rparr>)
   \<and> Test (demo_env demo_resolve demo_test_foreign) 2 (''unittest'', 2)
         (demo_pkg ''core'' ''alpha'') =
       (Some (ForeignError ''exit status 1''), 2)
   \<and> testRunCmd (demo_env demo_resolve demo_test_foreign) [''beta'', ''alpha''] demo_start =
       (Some Panic,
        \<lparr>world = 2,
         events =
           [Ev_Initialize, Ev_ResolvePackage ''beta'', Ev_ResolvePackage ''alpha'',
            Ev_ResetProject, Ev_ResolveTarget ''unittest'', Ev_NewBuilder ''unittest'',
            Ev_StatusMessage VERBOSITY_DEFAULT ''Testing package %s\<newline>'' [''core/beta''],
            Ev_ResolvePackage ''core/beta'',
            Ev_Test (''unittest'', 1) (demo_pkg ''core'' ''beta'') None,
            Ev_ResetProject, Ev_ResolveTarget ''unittest'', Ev_NewBuilder ''unittest'',
            Ev_StatusMessage VERBOSITY_DEFAULT ''Testing package %s\<newline>'' [''core/alpha''],
            Ev_ResolvePackage ''core/alpha'',
            Ev_Test (''unittest'', 2) (demo_pkg ''core'' ''alpha'')
              (Some (ForeignError ''exit status 1''))]\<rparr>)"
proof -
  let ?E = "demo_env demo_resolve demo_test_foreign"
  let ?s1 = "\<lparr>world = 0,
       events = [Ev_Initialize, Ev_ResolvePackage ''beta'', Ev_ResolvePackage ''alpha'']\<rparr>
       :: (nat, string, string \<times> nat) state"
  let ?s = "\<lparr>world = 1,
       events = [Ev_Initialize, Ev_ResolvePackage ''beta'', Ev_ResolvePackage ''alpha'',
            Ev_ResetProject, Ev_ResolveTarget ''unittest'', Ev_NewBuilder ''unittest'',
            Ev_StatusMessage VERBOSITY_DEFAULT ''Testing package %s\<newline>'' [''core/beta''],
            Ev_ResolvePackage ''core/beta'',
            Ev_Test (''unittest'', 1) (demo_pkg ''core'' ''beta'') None]\<rparr>
       :: (nat, string, string \<times> nat) state"
  have sel: "testRunCmd_select ?E [''beta'', ''alpha''] demo_start =
     (Inr ([demo_pkg ''core'' ''beta''] @ demo_pkg ''core'' ''alpha'' # []), ?s1)"
    by (simp add: run_defs call_defs demo_simps)
  have pre: "testRunCmd_cycles ?E [demo_pkg ''core'' ''beta''] [] [] ?s1 =
      (Inr ([demo_pkg ''core'' ''beta''], []), ?s)"
    by (simp add: run_defs call_defs demo_simps)
  have tgt: "ResolveTarget ?E (ResetProject ?E (world ?s)) ''unittest'' = Some ''unittest''"
    by (simp add: demo_simps)
  have bld: "NewBuilder ?E (ResetProject ?E (world ?s)) ''unittest'' = (Inr (''unittest'', 2), 2)"
    by (simp add: demo_simps)
  have res: "ResolvePackage ?E 2 (FullName (demo_pkg ''core'' ''alpha'')) =
      Inr (demo_pkg ''core'' ''alpha'')"
    by (simp add: demo_simps)
  have tst: "Test ?E 2 (''unittest'', 2) (demo_pkg ''core'' ''alpha'') =
      (Some (ForeignError ''exit status 1''), 2)"
    by (simp add: demo_simps)
  note T = testRunCmd_foreign_error_panics [of ?E "demo_pkg ''core'' ''alpha''" ?s,
      THEN conjunct1, rule_format, OF conjI, OF sel conjI, OF pre conjI, OF tgt conjI,
      OF bld conjI, OF res tst]
  from T have "testRunCmd ?E [''beta'', ''alpha''] demo_start =
       (Some Panic,
        \<lparr>world = 2,
         events =
           [Ev_Initialize, Ev_ResolvePackage ''beta'', Ev_ResolvePackage ''alpha'',
            Ev_ResetProject, Ev_ResolveTarget ''unittest'', Ev_NewBuilder ''unittest'',
            Ev_StatusMessage VERBOSITY_DEFAULT ''Testing package %s\<newline>'' [''core/beta''],
            Ev_ResolvePackage ''core/beta'',
            Ev_Test (''unittest'', 1) (demo_pkg ''core'' ''beta'') None,
            Ev_ResetProject, Ev_ResolveTarget ''unittest'', Ev_NewBuilder ''unittest'',
            Ev_StatusMessage VERBOSITY_DEFAULT ''Testing package %s\<newline>'' [''core/alpha''],
            Ev_ResolvePackage ''core/alpha'',
            Ev_Test (''unittest'', 2) (demo_pkg ''core'' ''alpha'')
              (Some (ForeignError ''exit status 1''))]\<rparr>)"
    by (simp add: demo_pkg_def)
  with sel tst show ?thesis by simp
qed

text \<open>
  C10. When initialisation succeeds and some argument other than "all" does not
  resolve, the test command ends in the exit \<open>NewtUsage\<close> with the error the resolver
  gave for the first such argument, whether or not "all" is among the arguments. The
  trace then holds the initialisation and the resolutions up to that argument only: the
  package list is not read and no cycle starts. And when "all" is among the arguments
  and the selection is reached, every explicit name was resolved before the package
  list was read.
\<close>

theorem testRunCmd_explicit_name_fatal:
  assumes init: "Initialize env (world s0) = (None, w1)"
  shows "((\<exists>a\<in>set args. a \<noteq> ''all'' \<and> isl (ResolvePackage env w1 a)) \<longrightarrow>
          (\<exists>pre a post err.
             args = pre @ a # post \<and> a \<noteq> ''all'' \<and> ResolvePackage env w1 a = Inl err \<and>
             (\<forall>x\<in>set pre. x \<noteq> ''all'' \<longrightarrow> \<not> isl (ResolvePackage env w1 x)) \<and>
             testRunCmd env args s0 =
               (Some (NewtUsage True (Some err)),
                s0\<lparr>world := w1,
                   events := events s0 @
                     Ev_Initialize # map Ev_ResolvePackage (explicit_names pre @ [a])\<rparr>)))
       \<and> (\<forall>packs s1. ''all'' \<in> set args \<and> testRunCmd_select env args s0 = (Inr packs, s1) \<longrightarrow>
            events s1 = events s0 @
              Ev_Initialize # map Ev_ResolvePackage (explicit_names args) @ [Ev_PackageList])"
proof -
  have A: "\<exists>pre a post err.
             args = pre @ a # post \<and> a \<noteq> ''all'' \<and> ResolvePackage env w1 a = Inl err \<and>
             (\<forall>x\<in>set pre. x \<noteq> ''all'' \<longrightarrow> \<not> isl (ResolvePackage env w1 x)) \<and>
             testRunCmd env args s0 =
               (Some (NewtUsage True (Some err)),
                s0\<lparr>world := w1,
                   events := events s0 @
                     Ev_Initialize # map Ev_ResolvePackage (explicit_names pre @ [a])\<rparr>)"
    if bad: "\<exists>a\<in>set args. a \<noteq> ''all'' \<and> isl (ResolvePackage env w1 a)"
  proof -
    from bad obtain pre a post where args: "args = pre @ a # post"
      and a: "a \<noteq> ''all''" and isl: "isl (ResolvePackage env w1 a)"
      and pre: "\<forall>x\<in>set pre. \<not> (x \<noteq> ''all'' \<and> isl (ResolvePackage env w1 x))"
      by (auto dest!: split_list_first_prop)
    from isl obtain err where r: "ResolvePackage env w1 a = Inl err"
      by (cases "ResolvePackage env w1 a") auto
    let ?s1 = "emit Ev_Initialize (s0\<lparr>world := w1\<rparr>)"
    have w: "world ?s1 = w1" by (simp add: emit_def)
    have "testRunCmd_resolve env (pre @ a # post) False [] ?s1 =
       (Inl (NewtUsage True (Some err)),
        ?s1\<lparr>events := events ?s1 @ map Ev_ResolvePackage (explicit_names pre @ [a])\<rparr>)"
      using pre a r by (intro testRunCmd_resolve_first_fail) (auto simp: w)
    then have "testRunCmd env args s0 =
       (Some (NewtUsage True (Some err)),
        s0\<lparr>world := w1,
           events := events s0 @ Ev_Initialize # map Ev_ResolvePackage (explicit_names pre @ [a])\<rparr>)"
      using init args
      by (simp add: testRunCmd_def testRunCmd_select_def do_Initialize_def) (simp add: emit_def)
    with args a r pre show ?thesis by blast
  qed
  have B: "events s1 = events s0 @
              Ev_Initialize # map Ev_ResolvePackage (explicit_names args) @ [Ev_PackageList]"
    if "''all'' \<in> set args" and "testRunCmd_select env args s0 = (Inr packs, s1)" for packs s1
    using testRunCmd_select_all [OF that] by auto
  from A B show ?thesis by blast
qed

theorem testRunCmd_explicit_name_fatal_witness:
  "Initialize (demo_env demo_resolve demo_test) (world demo_start) = (None, 0)
   \<and> ''all'' \<in> set [''beta'', ''all'', ''nope'']
   \<and> ResolvePackage (demo_env demo_resolve demo_test) 0 ''nope'' =
       Inl (NewtError ''no such package: nope'')
   \<and> (\<exists>pre a post err.
         [''beta'', ''all'', ''nope''] = pre @ a # post \<and> a \<noteq> ''all'' \<and>
         ResolvePackage (demo_env demo_resolve demo_test) 0 a = Inl err \<and>
         testRunCmd (demo_env demo_resolve demo_test) [''beta'', ''all'', ''nope''] demo_start =
           (Some (NewtUsage True (Some err)),
            demo_start\<lparr>world := 0,
               events := events demo_start @
                 Ev_Initialize # map Ev_ResolvePackage (explicit_names pre @ [a])\<rparr>))
   \<and> testRunCmd (demo_env demo_resolve demo_test) [''beta'', ''all'', ''nope''] demo_start =
       (Some (NewtUsage True (Some (NewtError ''no such package: nope''))),
        \<lparr>world = 0,
         events = [Ev_Initialize, Ev_ResolvePackage ''beta'', Ev_ResolvePackage ''nope'']\<rparr>)"
proof -
  let ?E = "demo_env demo_resolve demo_test"
  have i: "Initialize ?E (world demo_start) = (None, 0)" by (simp add: demo_simps)
  have r: "ResolvePackage ?E 0 ''nope'' = Inl (NewtError ''no such package: nope'')"
    by (simp add: demo_simps)
  then have bad: "\<exists>a\<in>set [''beta'', ''all'', ''nope'']. a \<noteq> ''all'' \<and> isl (ResolvePackage ?E 0 a)"
    by simp
  have run: "testRunCmd ?E [''beta'', ''all'', ''nope''] demo_start =
       (Some (NewtUsage True (Some (NewtError ''no such package: nope''))),
        \<lparr>world = 0,
         events = [Ev_Initialize, Ev_ResolvePackage ''beta'', Ev_ResolvePackage ''nope'']\<rparr>)"
    by (simp add: run_defs call_defs demo_simps)
  have a: "''all'' \<in> set [''beta'', ''all'', ''nope'']" by simp
  from testRunCmd_explicit_name_fatal [OF i, of "[''beta'', ''all'', ''nope'']",
      THEN conjunct1, THEN mp, OF bad] i a r run
  show ?thesis by blast
qed

section \<open>The clean command\<close>

text \<open>
  C5, as amended. Take an invocation of the clean command in which initialisation
  succeeds and every argument other than the wildcard "all" resolves to a target. If
  some argument is the wildcard, the command announces and removes the whole output
  root \<open>BinRoot\<close> (and ends in \<open>NewtUsage\<close> exactly when the removal fails), and the
  trace holds no construction of a builder and no Clean action, also when explicit
  target names are given with the wildcard. If no argument is the wildcard and the
  command returns, then for each argument in order a builder was constructed from the
  target the argument resolved to, in the world the step before left (the world after
  initialisation for the first), and Clean was invoked once, on the very builder that
  construction returned and in the world it left, and succeeded; the trace holds these
  constructions and Clean actions in this order and nothing else after the
  resolutions.
\<close>

theorem cleanRunCmd_wildcard:
  assumes init: "Initialize env (world s0) = (None, w1)"
    and ne: "args \<noteq> []"
    and res: "\<forall>a\<in>set args. a \<noteq> TARGET_KEYWORD_ALL \<longrightarrow> ResolveTarget env w1 a \<noteq> None"
  shows "(TARGET_KEYWORD_ALL \<in> set args \<longrightarrow>
           cleanRunCmd env args s0 =
             ((case fst (RemoveAll env w1 (BinRoot env w1)) of
                 None \<Rightarrow> None
               | Some err \<Rightarrow> Some (NewtUsage True (Some err))),
              s0\<lparr>world := snd (RemoveAll env w1 (BinRoot env w1)),
                 events := events s0 @
                   Ev_Initialize # map Ev_ResolveTarget (explicit_names args) @
                   [Ev_StatusMessage VERBOSITY_VERBOSE ''Cleaning directory %s\<newline>''
                      [BinRoot env w1],
                    Ev_RemoveAll (BinRoot env w1)]\<rparr>))
       \<and> (TARGET_KEYWORD_ALL \<notin> set args \<longrightarrow>
           (\<forall>s'. cleanRunCmd env args s0 = (None, s') \<longrightarrow>
              (\<exists>bs ws. length bs = length args \<and> length ws = Suc (length args) \<and>
                 ws ! 0 = w1 \<and> ws ! length args = world s' \<and>
                 (\<forall>i<length args. \<exists>wm.
                    NewBuilder env (ws ! i) (the (ResolveTarget env w1 (args ! i))) =
                      (Inr (bs ! i), wm) \<and>
                    Clean env wm (bs ! i) = (None, ws ! Suc i)) \<and>
                 events s' = events s0 @
                   Ev_Initialize # map Ev_ResolveTarget args @
                   concat (map (\<lambda>(a, b). [Ev_NewBuilder (the (ResolveTarget env w1 a)), Ev_Clean b])
                             (zip args bs)))))
       \<and> TARGET_KEYWORD_ALL = ''all''"
proof -
  let ?s1 = "emit Ev_Initialize (s0\<lparr>world := w1\<rparr>)"
  have w: "world ?s1 = w1" by (simp add: emit_def)
  from res have "\<forall>a\<in>set args. a \<noteq> ''all'' \<longrightarrow> ResolveTarget env (world ?s1) a \<noteq> None"
    by (simp add: w TARGET_KEYWORD_ALL_def)
  note cl = cleanRunCmd_classify_ok [OF this, of False "[]", unfolded w]
  from ne have len: "\<not> length args < 1" by (cases args) simp_all
  have A: "cleanRunCmd env args s0 =
             ((case fst (RemoveAll env w1 (BinRoot env w1)) of
                 None \<Rightarrow> None
               | Some err \<Rightarrow> Some (NewtUsage True (Some err))),
              s0\<lparr>world := snd (RemoveAll env w1 (BinRoot env w1)),
                 events := events s0 @
                   Ev_Initialize # map Ev_ResolveTarget (explicit_names args) @
                   [Ev_StatusMessage VERBOSITY_VERBOSE ''Cleaning directory %s\<newline>''
                      [BinRoot env w1],
                    Ev_RemoveAll (BinRoot env w1)]\<rparr>)"
    if all: "TARGET_KEYWORD_ALL \<in> set args"
    using all init len cl
    by (cases "RemoveAll env w1 (BinRoot env w1)")
      (auto simp add: cleanRunCmd_def do_Initialize_def do_RemoveAll_def StatusMessage_def
        emit_def Let_def TARGET_KEYWORD_ALL_def split: option.splits)
  have B: "\<exists>bs ws. length bs = length args \<and> length ws = Suc (length args) \<and>
                 ws ! 0 = w1 \<and> ws ! length args = world s' \<and>
                 (\<forall>i<length args. \<exists>wm.
                    NewBuilder env (ws ! i) (the (ResolveTarget env w1 (args ! i))) =
                      (Inr (bs ! i), wm) \<and>
                    Clean env wm (bs ! i) = (None, ws ! Suc i)) \<and>
                 events s' = events s0 @
                   Ev_Initialize # map Ev_ResolveTarget args @
                   concat (map (\<lambda>(a, b). [Ev_NewBuilder (the (ResolveTarget env w1 a)), Ev_Clean b])
                             (zip args bs))"
    if no: "TARGET_KEYWORD_ALL \<notin> set args" and run: "cleanRunCmd env args s0 = (None, s')"
    for s'
  proof -
    from no have ex: "explicit_names args = args"
      by (simp add: explicit_names_def TARGET_KEYWORD_ALL_def filter_id_conv) metis
    let ?ts = "map (\<lambda>a. the (ResolveTarget env w1 a)) args"
    let ?s2 = "?s1\<lparr>events := events ?s1 @ map Ev_ResolveTarget args\<rparr>"
    have w2: "world ?s2 = w1" by (simp add: emit_def)
    from run init len cl no ex have "cleanRunCmd_targets env ?ts ?s2 = (None, s')"
      by (simp add: cleanRunCmd_def do_Initialize_def TARGET_KEYWORD_ALL_def)
    from cleanRunCmd_targets_threaded [OF this, unfolded w2] obtain bs ws where
      l: "length bs = length args" and lw: "length ws = Suc (length args)" and
      w0: "ws ! 0 = w1" and wl: "ws ! length args = world s'" and
      st: "\<forall>i<length args. \<exists>wm.
        NewBuilder env (ws ! i) (?ts ! i) = (Inr (bs ! i), wm) \<and>
        Clean env wm (bs ! i) = (None, ws ! Suc i)" and
      e: "events s' = events ?s2 @
            concat (map (\<lambda>(t, b). [Ev_NewBuilder t, Ev_Clean b]) (zip ?ts bs))"
      by auto
    from st have st': "\<forall>i<length args. \<exists>wm.
        NewBuilder env (ws ! i) (the (ResolveTarget env w1 (args ! i))) = (Inr (bs ! i), wm) \<and>
        Clean env wm (bs ! i) = (None, ws ! Suc i)"
      by simp
    have "zip ?ts bs = map (\<lambda>(a, b). (the (ResolveTarget env w1 a), b)) (zip args bs)"
      by (simp add: zip_map1)
    with e have "events s' = events ?s2 @
        concat (map (\<lambda>(a, b). [Ev_NewBuilder (the (ResolveTarget env w1 a)), Ev_Clean b])
                  (zip args bs))"
      by (simp add: split_def comp_def)
    then have e': "events s' = events s0 @
                   Ev_Initialize # map Ev_ResolveTarget args @
                   concat (map (\<lambda>(a, b). [Ev_NewBuilder (the (ResolveTarget env w1 a)), Ev_Clean b])
                             (zip args bs))"
      by (simp add: emit_def)
    from l lw w0 wl st' e' show ?thesis by blast
  qed
  from A B show ?thesis by (simp add: TARGET_KEYWORD_ALL_def)
qed

theorem cleanRunCmd_wildcard_witness:
  "Initialize (demo_env demo_resolve demo_test) (world demo_start) = (None, 0)
   \<and> ResolveTarget (demo_env demo_resolve demo_test) 0 ''blinky'' = Some ''blinky''
   \<and> ResolveTarget (demo_env demo_resolve demo_test) 0 ''unittest'' = Some ''unittest''
   \<and> cleanRunCmd (demo_env demo_resolve demo_test) [''all'', ''blinky''] demo_start =
       (None,
        \<lparr>world = 0,
         events = [Ev_Initialize, Ev_ResolveTarget ''blinky'',
                   Ev_StatusMessage VERBOSITY_VERBOSE ''Cleaning directory %s\<newline>'' [''bin''],
                   Ev_RemoveAll ''bin'']\<rparr>)
   \<and> NewBuilder (demo_env demo_resolve demo_test) 0 ''unittest'' = (Inr (''unittest'', 0), 0)
   \<and> Clean (demo_env demo_resolve demo_test) 0 (''unittest'', 0) = (None, 0)
   \<and> NewBuilder (demo_env demo_resolve demo_test) 0 ''blinky'' = (Inr (''blinky'', 0), 0)
   \<and> Clean (demo_env demo_resolve demo_test) 0 (''blinky'', 0) = (None, 0)
   \<and> cleanRunCmd (demo_env demo_resolve demo_test) [''unittest'', ''blinky''] demo_start =
       (None,
        \<lparr>world = 0,
         events = [Ev_Initialize, Ev_ResolveTarget ''unittest'', Ev_ResolveTarget ''blinky'',
                   Ev_NewBuilder ''unittest'', Ev_Clean (''unittest'', 0),
                   Ev_NewBuilder ''blinky'', Ev_Clean (''blinky'', 0)]\<rparr>)"
proof -
  let ?E = "demo_env demo_resolve demo_test"
  let ?run = "cleanRunCmd ?E [''unittest'', ''blinky''] demo_start"
  have i: "Initialize ?E (world demo_start) = (None, 0)" by (simp add: demo_simps)
  have t1: "ResolveTarget ?E 0 ''blinky'' = Some ''blinky''" by (simp add: demo_simps)
  have t2: "ResolveTarget ?E 0 ''unittest'' = Some ''unittest''" by (simp add: demo_simps)
  have n1: "NewBuilder ?E 0 ''unittest'' = (Inr (''unittest'', 0), 0)" by (simp add: demo_simps)
  have c1: "Clean ?E 0 (''unittest'', 0) = (None, 0)" by (simp add: demo_simps)
  have n2: "NewBuilder ?E 0 ''blinky'' = (Inr (''blinky'', 0), 0)" by (simp add: demo_simps)
  have c2: "Clean ?E 0 (''blinky'', 0) = (None, 0)" by (simp add: demo_simps)
  have r1: "\<forall>a\<in>set [''all'', ''blinky'']. a \<noteq> TARGET_KEYWORD_ALL \<longrightarrow> ResolveTarget ?E 0 a \<noteq> None"
    by (simp add: demo_simps TARGET_KEYWORD_ALL_def)
  have r2: "\<forall>a\<in>set [''unittest'', ''blinky'']. a \<noteq> TARGET_KEYWORD_ALL \<longrightarrow> ResolveTarget ?E 0 a \<noteq> None"
    by (simp add: demo_simps TARGET_KEYWORD_ALL_def)
  have a1: "TARGET_KEYWORD_ALL \<in> set [''all'', ''blinky'']" by (simp add: TARGET_KEYWORD_ALL_def)
  have a2: "TARGET_KEYWORD_ALL \<notin> set [''unittest'', ''blinky'']" by (simp add: TARGET_KEYWORD_ALL_def)
  have A: "cleanRunCmd ?E [''all'', ''blinky''] demo_start =
       (None,
        \<lparr>world = 0,
         events = [Ev_Initialize, Ev_ResolveTarget ''blinky'',
                   Ev_StatusMessage VERBOSITY_VERBOSE ''Cleaning directory %s\<newline>'' [''bin''],
                   Ev_RemoveAll ''bin'']\<rparr>)"
    using cleanRunCmd_wildcard [OF i _ r1, THEN conjunct1, THEN mp, OF _ a1]
    by (simp add: demo_env_sel demo_start_def)
  have run: "?run =
       (None,
        \<lparr>world = 0,
         events = [Ev_Initialize, Ev_ResolveTarget ''unittest'', Ev_ResolveTarget ''blinky'',
                   Ev_NewBuilder ''unittest'', Ev_Clean (''unittest'', 0),
                   Ev_NewBuilder ''blinky'', Ev_Clean (''blinky'', 0)]\<rparr>)"
    by (simp add: cleanRunCmd_def call_defs demo_simps TARGET_KEYWORD_ALL_def)
  then have run': "?run = (None, snd ?run)"
    by (simp add: prod_eq_iff)
  from cleanRunCmd_wildcard [OF i _ r2, THEN conjunct2, THEN conjunct1, THEN mp, OF _ a2,
      THEN spec, THEN mp, OF _ run']
  obtain bs ws where l0: "length bs = length [''unittest'', ''blinky'']" and
    w0: "ws ! 0 = 0" and
    st: "\<forall>i<length [''unittest'', ''blinky'']. \<exists>wm.
           NewBuilder ?E (ws ! i) (the (ResolveTarget ?E 0 ([''unittest'', ''blinky''] ! i))) =
             (Inr (bs ! i), wm) \<and>
           Clean ?E wm (bs ! i) = (None, ws ! Suc i)" and
    e: "events (snd ?run) =
          events demo_start @ Ev_Initialize # map Ev_ResolveTarget [''unittest'', ''blinky''] @
            concat (map (\<lambda>(a, b). [Ev_NewBuilder (the (ResolveTarget ?E 0 a)), Ev_Clean b])
                      (zip [''unittest'', ''blinky''] bs))"
    by blast
  from st [rule_format, of 0] w0 have b0: "bs ! 0 = (''unittest'', 0)" and w1: "ws ! 1 = 0"
    by (auto simp add: demo_env_sel)
  from st [rule_format, of 1] w1 have b1: "bs ! 1 = (''blinky'', 0)"
    by (auto simp add: demo_env_sel)
  from l0 obtain x y where bs: "bs = [x, y]"
    by (cases bs; cases "tl bs") auto
  with b0 b1 have bs': "bs = [(''unittest'', 0), (''blinky'', 0)]" by simp
  from e have B: "events (snd ?run) =
           [Ev_Initialize, Ev_ResolveTarget ''unittest'', Ev_ResolveTarget ''blinky'',
            Ev_NewBuilder ''unittest'', Ev_Clean (''unittest'', 0),
            Ev_NewBuilder ''blinky'', Ev_Clean (''blinky'', 0)]"
    unfolding bs' by (simp add: t1 t2 demo_start_def)
  from i t1 t2 A n1 c1 n2 c2 run B show ?thesis by blast
qed

text \<open>
  C5 as first stated fails: with the wildcard and a name that is no target, the
  command ends at the name and removes nothing.
\<close>

theorem cleanRunCmd_wildcard_counterexample:
  "TARGET_KEYWORD_ALL \<in> set [''all'', ''bogus'']
   \<and> cleanRunCmd (demo_env demo_resolve demo_test) [''all'', ''bogus''] demo_start =
       (Some (NewtUsage True (Some (NewtError ''invalid target name: bogus''))),
        \<lparr>world = 0, events = [Ev_Initialize, Ev_ResolveTarget ''bogus'']\<rparr>)
   \<and> Ev_RemoveAll (BinRoot (demo_env demo_resolve demo_test) 0)
       \<notin> set (events (snd (cleanRunCmd (demo_env demo_resolve demo_test)
                              [''all'', ''bogus''] demo_start)))"
proof -
  have run: "cleanRunCmd (demo_env demo_resolve demo_test) [''all'', ''bogus''] demo_start =
       (Some (NewtUsage True (Some (NewtError ''invalid target name: bogus''))),
        \<lparr>world = 0, events = [Ev_Initialize, Ev_ResolveTarget ''bogus'']\<rparr>)"
    by (simp add: cleanRunCmd_def call_defs demo_simps TARGET_KEYWORD_ALL_def NewNewtError_def)
  show ?thesis unfolding run by (simp add: TARGET_KEYWORD_ALL_def)
qed

end
